theory Spec2Isabelle
  imports Complex_Main "HOL-Library.Sublist" "HOL-Library.Multiset"
begin

section \<open>Python values and built-ins used by the scoring code\<close>

text \<open>
  Strings are \<^typ>\<open>string\<close>, Python integers are \<^typ>\<open>int\<close>, and exceptions are
  values of \<open>py_error\<close>. A Python float is the rational number it denotes
  (\<^typ>\<open>rat\<close>). In the channel scores and in the sort key of the influencer ranking,
  whose order depends on the last bit, every float operation is the exact operation
  followed by rounding to binary64 (\<open>fl\<close> below). In the video scores and the view
  estimate the operations are exact: there the rounding is not modelled.
\<close>

datatype py_error = KeyError | ValueError | IndexError

text \<open>\<open>str.lower()\<close> on ASCII text: the 26 capital letters are mapped, every other
  character is kept.\<close>

definition lower_char :: "char \<Rightarrow> char" where
  "lower_char c =
     (case map_of (zip ''ABCDEFGHIJKLMNOPQRSTUVWXYZ'' ''abcdefghijklmnopqrstuvwxyz'') c of
        Some d \<Rightarrow> d
      | None \<Rightarrow> c)"

definition lower :: "string \<Rightarrow> string" where
  "lower s = map lower_char s"

text \<open>\<open>needle in haystack\<close> on strings: the needle occurs as a contiguous substring.
  The empty needle occurs in every string.\<close>

fun str_in :: "string \<Rightarrow> string \<Rightarrow> bool" where
  "str_in n [] = (n = [])"
| "str_in n (h # hs) = (prefix n (h # hs) \<or> str_in n hs)"

text \<open>\<open>d.get(k, default)\<close> on a dictionary kept as an association list (Python
  dictionaries keep insertion order; keys are unique).\<close>

definition dict_get :: "('k \<times> 'v) list \<Rightarrow> 'k \<Rightarrow> 'v \<Rightarrow> 'v" where
  "dict_get d k dflt = (case map_of d k of Some v \<Rightarrow> v | None \<Rightarrow> dflt)"

text \<open>The loop \<open>for keyword in keywords: if keyword in text: score += w\<close>, with the
  running score as accumulator.\<close>

fun score_keywords :: "int \<Rightarrow> string list \<Rightarrow> string \<Rightarrow> int \<Rightarrow> int" where
  "score_keywords w [] text score = score"
| "score_keywords w (keyword # keywords) text score =
     score_keywords w keywords text (if str_in keyword text then score + w else score)"

text \<open>\<open>any(word in text for word in words)\<close>.\<close>

definition any_in :: "string list \<Rightarrow> string \<Rightarrow> bool" where
  "any_in ws text = list_ex (\<lambda>word. str_in word text) ws"

text \<open>\<open>str.upper()\<close> on one ASCII character, and \<open>str.capitalize()\<close>: the first
  character in upper case, the rest in lower case.\<close>

definition upper_char :: "char \<Rightarrow> char" where
  "upper_char c =
     (case map_of (zip ''abcdefghijklmnopqrstuvwxyz'' ''ABCDEFGHIJKLMNOPQRSTUVWXYZ'') c of
        Some d \<Rightarrow> d
      | None \<Rightarrow> c)"

definition capitalize :: "string \<Rightarrow> string" where
  "capitalize s = (case s of [] \<Rightarrow> [] | c # cs \<Rightarrow> upper_char c # lower cs)"

text \<open>\<open>str.split()\<close> without argument: the maximal runs of characters that are not ASCII
  white space (space, tab, line feed, vertical tab, form feed, carriage return and the four
  separators 0x1C to 0x1F).\<close>

definition is_space :: "char \<Rightarrow> bool" where
  "is_space c =
     (c \<in> set [CHR '' '', CHR 0x09, CHR 0x0A, CHR 0x0B, CHR 0x0C, CHR 0x0D,
               CHR 0x1C, CHR 0x1D, CHR 0x1E, CHR 0x1F])"

fun split_from :: "string \<Rightarrow> string \<Rightarrow> string list" where
  "split_from word [] = (if word = [] then [] else [word])"
| "split_from word (c # cs) =
     (if is_space c then (if word = [] then split_from [] cs else word # split_from [] cs)
      else split_from (word @ [c]) cs)"

definition split :: "string \<Rightarrow> string list" where
  "split s = split_from [] s"

text \<open>\<open>sep.join(words)\<close>.\<close>

fun join :: "string \<Rightarrow> string list \<Rightarrow> string" where
  "join sep [] = []"
| "join sep [w] = w"
| "join sep (w # v # ws) = w @ sep @ join sep (v # ws)"

text \<open>\<open>s.replace(old, new, 1)\<close>: the leftmost occurrence of \<open>old\<close> is replaced, and
  \<open>s\<close> is returned when there is none.\<close>

fun replace_first :: "string \<Rightarrow> string \<Rightarrow> string \<Rightarrow> string" where
  "replace_first old new [] = (if old = [] then new else [])"
| "replace_first old new (c # cs) =
     (if prefix old (c # cs) then new @ drop (length old) (c # cs)
      else c # replace_first old new cs)"

text \<open>\<open>s.replace(c, '')\<close> for a single character \<open>c\<close>: every occurrence is deleted.\<close>

definition delete_char :: "char \<Rightarrow> string \<Rightarrow> string" where
  "delete_char c s = filter (\<lambda>x. x \<noteq> c) s"

text \<open>\<open>s.count(old)\<close>: the number of occurrences of \<open>old\<close> that do not overlap, from
  left to right.\<close>

function str_count :: "string \<Rightarrow> string \<Rightarrow> nat" where
  "str_count old [] = (if old = [] then 1 else 0)"
| "str_count old (c # cs) =
     (if old = [] then Suc (str_count old cs)
      else if prefix old (c # cs) then Suc (str_count old (drop (length old - 1) cs))
      else str_count old cs)"
  by pat_completeness auto
termination
  by (relation "measure (\<lambda>(old, s). length s)") auto

text \<open>\<open>d[k] = v\<close> on a dictionary: the value of an existing key is replaced in place, a
  new key goes to the end.\<close>

fun dict_set :: "'k \<Rightarrow> 'v \<Rightarrow> ('k \<times> 'v) list \<Rightarrow> ('k \<times> 'v) list" where
  "dict_set k v [] = [(k, v)]"
| "dict_set k v ((k', v') # d) =
     (if k' = k then (k, v) # d else (k', v') # dict_set k v d)"

text \<open>\<open>list.sort(key=..., reverse=True)\<close> and \<open>sorted(..., key=..., reverse=True)\<close>:
  CPython reverses the list, sorts it stably in ascending order of the key, and reverses
  the result.\<close>

definition sort_reverse :: "('a \<Rightarrow> 'k::linorder) \<Rightarrow> 'a list \<Rightarrow> 'a list" where
  "sort_reverse key xs = rev (sort_key key (rev xs))"

text \<open>The slice \<open>xs[:n]\<close>: a negative \<open>n\<close> counts from the end of the list.\<close>

definition slice_to :: "int \<Rightarrow> 'a list \<Rightarrow> 'a list" where
  "slice_to n xs = (if 0 \<le> n then take (nat n) xs else take (length xs - nat (- n)) xs)"

text \<open>
  Rounding to the nearest binary64 number, ties to the even significand, as CPython does
  for a float literal, for \<open>float(n)\<close> of an integer, for the true division of two
  integers and for \<open>+\<close>, \<open>*\<close> and \<open>/\<close> on floats. A number with binary exponent \<open>k\<close>
  keeps 53 significant bits, that is, it becomes a multiple of \<open>2^(k - 52)\<close>; below
  \<open>2^-1022\<close> the spacing stays \<open>2^-1074\<close> (subnormal numbers). The upper end of the range
  is not modelled: a result of magnitude \<open>2^1024\<close> or more is an infinity or an
  \<open>OverflowError\<close> in Python and a rounded rational here.
\<close>

function bit_length :: "int \<Rightarrow> int" where
  "bit_length n = (if n \<le> 0 then 0 else 1 + bit_length (n div 2))"
  by pat_completeness auto
termination
  by (relation "measure nat") auto

definition pow2 :: "int \<Rightarrow> rat" where
  "pow2 e = (if 0 \<le> e then 2 ^ nat e else 1 / 2 ^ nat (- e))"

text \<open>The binary exponent of a positive number: the \<open>k\<close> with \<open>2^k \<le> x < 2^(k + 1)\<close>.\<close>

definition ilog2 :: "rat \<Rightarrow> int" where
  "ilog2 x =
     (if 1 \<le> x then bit_length \<lfloor>x\<rfloor> - 1
      else (let n = bit_length \<lfloor>1 / x\<rfloor> - 1 in if pow2 n = 1 / x then - n else - n - 1))"

definition round_half_even :: "rat \<Rightarrow> int" where
  "round_half_even x =
     (let f = \<lfloor>x\<rfloor>; d = x - of_int f in
      if d < 1 / 2 then f else if 1 / 2 < d then f + 1 else if even f then f else f + 1)"

definition fl :: "rat \<Rightarrow> rat" where
  "fl x =
     (if x = 0 then 0
      else (let e = max (ilog2 \<bar>x\<bar> - 52) (- 1074);
                m = round_half_even (\<bar>x\<bar> / pow2 e)
            in sgn x * of_int m * pow2 e))"

text \<open>\<open>float(n)\<close> of an integer (also the conversion of an integer operand next to a
  float), and the float operations \<open>a * b\<close>, \<open>a + b\<close>, \<open>a / b\<close>; the division of two
  integers \<open>m / n\<close> is \<open>fdiv\<close> of the exact integers.\<close>

definition float_of_int :: "int \<Rightarrow> rat" where
  "float_of_int n = fl (of_int n)"

definition fmul :: "rat \<Rightarrow> rat \<Rightarrow> rat" where
  "fmul a b = fl (a * b)"

definition fadd :: "rat \<Rightarrow> rat \<Rightarrow> rat" where
  "fadd a b = fl (a + b)"

definition fdiv :: "rat \<Rightarrow> rat \<Rightarrow> rat" where
  "fdiv a b = fl (a / b)"

text \<open>\<open>int(x)\<close> on a float: truncation towards zero.\<close>

definition py_int :: "rat \<Rightarrow> int" where
  "py_int x = (if 0 \<le> x then \<lfloor>x\<rfloor> else \<lceil>x\<rceil>)"

text \<open>
  The module \<open>random\<close>. The generator is the sequence of the numbers it will produce, and
  each call consumes the head. \<open>random.choice(xs)\<close> raises \<open>IndexError\<close> on an empty list;
  \<open>random.sample(xs, k)\<close> picks \<open>k\<close> positions of \<open>xs\<close> without repetition and raises
  \<open>ValueError\<close> when \<open>xs\<close> has fewer than \<open>k\<close> elements; \<open>random.random()\<close> is a multiple of
  \<open>2^-53\<close> in \<open>[0, 1)\<close> and \<open>random.uniform(a, b)\<close> is \<open>a + (b - a) * random()\<close>.
\<close>

type_synonym rng = "nat \<Rightarrow> nat"

definition random_choice :: "'a list \<Rightarrow> rng \<Rightarrow> py_error + ('a \<times> rng)" where
  "random_choice xs g =
     (if xs = [] then Inl IndexError else Inr (xs ! (g 0 mod length xs), g \<circ> Suc))"

fun random_sample :: "'a list \<Rightarrow> nat \<Rightarrow> rng \<Rightarrow> py_error + ('a list \<times> rng)" where
  "random_sample population 0 g = Inr ([], g)"
| "random_sample population (Suc k) g =
     (if population = [] then Inl ValueError
      else
        (let i = g 0 mod length population in
         case random_sample (take i population @ drop (Suc i) population) k (g \<circ> Suc) of
           Inl e \<Rightarrow> Inl e
         | Inr (rest, g') \<Rightarrow> Inr (population ! i # rest, g')))"

definition random_uniform :: "rat \<Rightarrow> rat \<Rightarrow> rng \<Rightarrow> rat \<times> rng" where
  "random_uniform a b g = (a + (b - a) * (of_nat (g 0 mod 2 ^ 53) / 2 ^ 53), g \<circ> Suc)"

section \<open>Records\<close>

text \<open>The dictionaries built by the data source in \<open>get_channel_statistics\<close> and
  \<open>get_video_details\<close>. \<open>published_at\<close> is \<open>None\<close> when the key is missing. The
  video's \<open>title\<close> key is the field \<open>video_title\<close>, since \<open>title\<close> names the title
  argument of the content generator's functions.\<close>

record channel =
  channel_id :: string
  channel_title :: string
  description :: string
  published_at :: "string option"
  subscriber_count :: int
  video_count :: int
  view_count :: int
  country :: string
  custom_url :: string

text \<open>A channel after \<open>find_ai_influencers\<close> has stored the two derived scores on it.\<close>

record influencer = channel +
  growth_score :: rat
  ai_relevance_score :: int

record video =
  video_id :: string
  video_title :: string
  description :: string
  published_at :: "string option"
  channel_id :: string
  view_count :: int
  like_count :: int
  comment_count :: int
  tags :: "string list"
  duration :: string

text \<open>A video after \<open>analyze_influencer_videos\<close> has stored the owner's figures and the
  engagement rate on it, which \<open>_calculate_performance_score\<close> reads back.\<close>

record enriched_video = video +
  influencer_subscriber_count :: int
  influencer_total_views :: int
  engagement_rate :: rat

section \<open>influencer\_finder.py: channel scores and the influencer ranking\<close>

text \<open>
  The scores read the clock and parse a date:
  \<open>datetime.fromisoformat(published_at.replace('Z', '+00:00'))\<close> and
  \<open>(datetime.now().replace(tzinfo=...) - published_date).days\<close>. Both belong to the
  standard library and are a parameter here: \<open>age_days s\<close> is the number of whole days
  from the date written in \<open>s\<close> to the moment of the call, and \<open>None\<close> when
  \<open>fromisoformat\<close> raises \<open>ValueError\<close> on \<open>s\<close>.
\<close>

type_synonym clock = "string \<Rightarrow> int option"

definition MIN_SUBSCRIBER_COUNT :: int where
  "MIN_SUBSCRIBER_COUNT = 50000"

definition text_to_check :: "'a channel_scheme \<Rightarrow> string" where
  "text_to_check channel_stats =
     lower (channel_title channel_stats) @ '' '' @ lower (channel.description channel_stats)"

definition ai_indicators :: "string list" where
  "ai_indicators =
     [''artificial intelligence'', ''machine learning'', ''deep learning'',
      ''neural network'', ''ai'', ''ml'', ''data science'', ''computer vision'',
      ''natural language processing'', ''nlp'', ''robotics'', ''automation'',
      ''chatgpt'', ''openai'', ''tensorflow'', ''pytorch'', ''kaggle'',
      ''algorithm'', ''programming'', ''coding'', ''tech'', ''technology'']"

definition is_ai_related_channel :: "'a channel_scheme \<Rightarrow> bool" where
  "is_ai_related_channel channel_stats =
     (let text_to_check = text_to_check channel_stats;
          score = score_keywords 1 ai_indicators text_to_check 0
      in score \<ge> 2)"

text \<open>The body of the \<open>try\<close> block of \<open>_calculate_growth_score\<close>: \<open>Inl\<close> is the
  exception it raises, \<open>Inr None\<close> is falling out of the block without returning (the
  channel age is not positive), \<open>Inr (Some g)\<close> is \<open>return g\<close>.\<close>

definition growth_try :: "clock \<Rightarrow> 'a channel_scheme \<Rightarrow> py_error + rat option" where
  "growth_try age_days channel_stats =
     (case channel.published_at channel_stats of
        None \<Rightarrow> Inl KeyError
      | Some s \<Rightarrow>
          (case age_days s of
             None \<Rightarrow> Inl ValueError
           | Some channel_age_days \<Rightarrow>
               if channel_age_days > 0 then
                 (let videos_per_day =
                        fdiv (of_int (video_count channel_stats)) (of_int channel_age_days);
                      views_per_video =
                        fdiv (of_int (channel.view_count channel_stats))
                          (of_int (max (video_count channel_stats) 1));
                      growth_score =
                        fadd (fmul (fmul videos_per_day 365) 10) (fdiv views_per_video 10000)
                  in Inr (Some (min growth_score 1000)))
               else Inr None))"

text \<open>\<open>except Exception: pass\<close> and the final \<open>return 0.0\<close>.\<close>

definition calculate_growth_score :: "clock \<Rightarrow> 'a channel_scheme \<Rightarrow> rat" where
  "calculate_growth_score age_days channel_stats =
     (case growth_try age_days channel_stats of
        Inl e \<Rightarrow> 0
      | Inr None \<Rightarrow> 0
      | Inr (Some g) \<Rightarrow> g)"

definition high_value_keywords :: "string list" where
  "high_value_keywords =
     [''artificial intelligence'', ''machine learning'', ''deep learning'', ''ai'', ''ml'']"

definition medium_value_keywords :: "string list" where
  "medium_value_keywords =
     [''data science'', ''programming'', ''tech'', ''computer science'', ''automation'']"

definition low_value_keywords :: "string list" where
  "low_value_keywords = [''tutorial'', ''coding'', ''software'', ''algorithm'', ''python'']"

definition calculate_ai_relevance_score :: "'a channel_scheme \<Rightarrow> int" where
  "calculate_ai_relevance_score channel_stats =
     (let text_to_check = text_to_check channel_stats;
          score = score_keywords 20 high_value_keywords text_to_check 0;
          score = score_keywords 10 medium_value_keywords text_to_check score;
          score = score_keywords 5 low_value_keywords text_to_check score
      in min score 100)"

text \<open>The two assignments \<open>stats['growth_score'] = ...\<close> and
  \<open>stats['ai_relevance_score'] = ...\<close>.\<close>

definition enrich :: "clock \<Rightarrow> channel \<Rightarrow> influencer" where
  "enrich age_days stats =
     \<lparr>channel.channel_id = channel.channel_id stats, channel_title = channel_title stats,
      channel.description = channel.description stats,
      channel.published_at = channel.published_at stats,
      subscriber_count = subscriber_count stats, video_count = video_count stats,
      channel.view_count = channel.view_count stats, country = country stats,
      custom_url = custom_url stats,
      growth_score = calculate_growth_score age_days stats,
      ai_relevance_score = calculate_ai_relevance_score stats\<rparr>"

text \<open>The filter loop of \<open>find_ai_influencers\<close>, with the list \<open>ai_influencers\<close> as
  accumulator.\<close>

fun filter_channels :: "clock \<Rightarrow> channel list \<Rightarrow> influencer list \<Rightarrow> influencer list" where
  "filter_channels age_days [] ai_influencers = ai_influencers"
| "filter_channels age_days (stats # channel_stats) ai_influencers =
     filter_channels age_days channel_stats
       (if subscriber_count stats \<ge> MIN_SUBSCRIBER_COUNT \<and> is_ai_related_channel stats
        then ai_influencers @ [enrich age_days stats]
        else ai_influencers)"

text \<open>The sort key of \<open>find_ai_influencers\<close>,
  \<open>x['subscriber_count'] * 0.4 + x['growth_score'] * 0.3 + x['ai_relevance_score'] * 0.3\<close>,
  as Python evaluates it: the literals are the binary64 numbers nearest to 4/10 and 3/10,
  the two integers are converted to floats, and each of the three products and two sums
  (from the left) is rounded.\<close>

definition combined_score :: "'a influencer_scheme \<Rightarrow> rat" where
  "combined_score x =
     fadd
       (fadd (fmul (float_of_int (subscriber_count x)) (fl (4 / 10)))
             (fmul (growth_score x) (fl (3 / 10))))
       (fmul (float_of_int (ai_relevance_score x)) (fl (3 / 10)))"

text \<open>The composite score in exact arithmetic, as the formula reads on paper.\<close>

definition exact_composite :: "'a influencer_scheme \<Rightarrow> rat" where
  "exact_composite x =
     of_int (subscriber_count x) * (4 / 10) + growth_score x * (3 / 10)
       + of_int (ai_relevance_score x) * (3 / 10)"

text \<open>\<open>find_ai_influencers\<close> from the list \<open>channel_stats\<close> on, which the statistics
  request of the data source returns. Before it, the function searches the data source by
  keyword and keeps one entry per channel id to build the request.\<close>

definition find_ai_influencers :: "clock \<Rightarrow> int \<Rightarrow> channel list \<Rightarrow> influencer list" where
  "find_ai_influencers age_days limit channel_stats =
     (let ai_influencers = filter_channels age_days channel_stats [];
          ai_influencers = sort_reverse combined_score ai_influencers;
          top_influencers = slice_to limit ai_influencers
      in top_influencers)"

text \<open>The ranking in the words of the specification: the channels that pass the subscriber
  threshold and the relevance gate, each with its two scores, in a stable sort by descending
  combined score.\<close>

definition ranking_spec :: "clock \<Rightarrow> channel list \<Rightarrow> influencer list" where
  "ranking_spec age_days channel_stats =
     sort_key (\<lambda>x. - combined_score x)
       (map (enrich age_days)
          (filter (\<lambda>c. subscriber_count c \<ge> MIN_SUBSCRIBER_COUNT \<and> is_ai_related_channel c)
             channel_stats))"

section \<open>influencer\_finder.py: video scores\<close>

definition calculate_engagement_rate :: "'a video_scheme \<Rightarrow> rat" where
  "calculate_engagement_rate video =
     (let view_count = max (video.view_count video) 1;
          like_count = like_count video;
          comment_count = comment_count video;
          engagement_rate = (of_int (like_count + comment_count * 2) / of_int view_count) * 100
      in min engagement_rate 100)"

text \<open>The \<open>try\<close> block of \<open>_calculate_performance_score\<close>, which computes the recency
  score, and its handler \<open>except Exception: recency_score = 0\<close>.\<close>

definition recency_try :: "clock \<Rightarrow> 'a video_scheme \<Rightarrow> py_error + rat" where
  "recency_try age_days video =
     (case video.published_at video of
        None \<Rightarrow> Inl KeyError
      | Some s \<Rightarrow>
          (case age_days s of
             None \<Rightarrow> Inl ValueError
           | Some days_old \<Rightarrow> Inr (of_int (max 0 (365 - days_old)) / 365)))"

definition recency_score :: "clock \<Rightarrow> 'a video_scheme \<Rightarrow> rat" where
  "recency_score age_days video =
     (case recency_try age_days video of Inl e \<Rightarrow> 0 | Inr r \<Rightarrow> r)"

definition calculate_performance_score ::
  "clock \<Rightarrow> 'a enriched_video_scheme \<Rightarrow> 'b channel_scheme \<Rightarrow> rat" where
  "calculate_performance_score age_days video influencer =
     (let view_ratio =
            of_int (video.view_count video) / of_int (max (subscriber_count influencer) 1);
          engagement_score = engagement_rate video;
          recency_score = recency_score age_days video;
          performance_score = view_ratio * 1000 + engagement_score * 10 + recency_score * 100
      in performance_score)"

text \<open>Example records.\<close>

definition ai_explained :: channel where
  "ai_explained = \<lparr>channel.channel_id = ''UC-ai-explained'', channel_title = ''AI Explained'',
     channel.description = ''machine learning tutorials'',
     channel.published_at = Some ''2020-01-01T00:00:00Z'', subscriber_count = 60000,
     video_count = 100, channel.view_count = 5000000, country = ''GB'', custom_url = ''@aiexplained''\<rparr>"

definition tech_lab :: channel where
  "tech_lab = \<lparr>channel.channel_id = ''UC-tech-lab'', channel_title = ''Tech Lab'',
     channel.description = ''Coding and robotics'',
     channel.published_at = Some ''not a date'', subscriber_count = 80000,
     video_count = 40, channel.view_count = 900000, country = ''US'', custom_url = ''@techlab''\<rparr>"

definition cooking :: channel where
  "cooking = \<lparr>channel.channel_id = ''UC-cooking'', channel_title = ''Home Cooking'',
     channel.description = ''Recipes every week'',
     channel.published_at = None, subscriber_count = 900000,
     video_count = 300, channel.view_count = 70000000, country = ''FR'', custom_url = ''@cooking''\<rparr>"

definition tech_lab_two :: channel where
  "tech_lab_two = tech_lab\<lparr>channel.channel_id := ''UC-tech-lab-2''\<rparr>"

definition deep_channel :: channel where
  "deep_channel = \<lparr>channel.channel_id = ''UC-deep'', channel_title = ''Deep'',
     channel.description = ''Learning AI'',
     channel.published_at = None, subscriber_count = 70000,
     video_count = 10, channel.view_count = 1000, country = ''US'', custom_url = ''@deep''\<rparr>"

text \<open>The indicators found in the lowercased title and description put together with
  nothing between them, a literal reading of "the concatenation of title and description".\<close>

definition plain_matches :: "'a channel_scheme \<Rightarrow> string list" where
  "plain_matches c =
     filter (\<lambda>k. str_in k (lower (channel_title c @ channel.description c))) ai_indicators"

definition lab_a :: channel where
  "lab_a = \<lparr>channel.channel_id = ''UC-lab-a'', channel_title = ''Lab A'',
     channel.description = ''artificial intelligence machine learning deep learning ml ai'',
     channel.published_at = None, subscriber_count = 81863,
     video_count = 10, channel.view_count = 1000, country = ''US'', custom_url = ''@laba''\<rparr>"

definition lab_b :: channel where
  "lab_b = \<lparr>channel.channel_id = ''UC-lab-b'', channel_title = ''Lab B'',
     channel.description = ''ai robotics'',
     channel.published_at = None, subscriber_count = 81923,
     video_count = 10, channel.view_count = 1000, country = ''US'', custom_url = ''@labb''\<rparr>"

definition example_clock :: clock where
  "example_clock s = (if s = ''2020-01-01T00:00:00Z'' then Some 2000 else None)"

definition example_video :: video where
  "example_video = \<lparr>video_id = ''v1'', video_title = ''AI news'', description = '''',
     published_at = None, channel_id = ''c1'', view_count = 100000, like_count = 5000,
     comment_count = 500, tags = [], duration = ''PT5M''\<rparr>"

definition undated_video :: enriched_video where
  "undated_video = \<lparr>video_id = ''v2'', video_title = ''Robots'', description = [],
     published_at = None, channel_id = ''UC-ai-explained'', view_count = 100000,
     like_count = 5000, comment_count = 500, tags = [], duration = ''PT5M'',
     influencer_subscriber_count = 60000, influencer_total_views = 5000000,
     engagement_rate = 6\<rparr>"

section \<open>content\_generator.py: trend score and difficulty\<close>

text \<open>The loop over \<open>trending_topics.items()\<close>.\<close>

fun score_topics :: "(string \<times> int) list \<Rightarrow> string \<Rightarrow> int \<Rightarrow> int" where
  "score_topics [] title_lower score = score"
| "score_topics ((topic, frequency) # items) title_lower score =
     score_topics items title_lower
       (if str_in topic title_lower then score + frequency * 2 else score)"

definition trending_keywords :: "string list" where
  "trending_keywords = [''2024'', ''2025'', ''new'', ''latest'', ''breakthrough'', ''future'']"

definition calculate_trend_score :: "string \<Rightarrow> (string \<times> int) list \<Rightarrow> int" where
  "calculate_trend_score title trending_topics =
     (let title_lower = lower title;
          score = score_topics trending_topics title_lower 0;
          score = score_keywords 5 trending_keywords title_lower score
      in min score 100)"

definition difficulty_map :: "(string \<times> string) list" where
  "difficulty_map =
     [(''tutorial'', ''Medium''), (''news'', ''Easy''), (''comparison'', ''Medium''),
      (''explanation'', ''Hard''), (''prediction'', ''Medium''), (''review'', ''Easy'')]"

definition base_difficulty :: "string \<Rightarrow> string" where
  "base_difficulty category = dict_get difficulty_map category ''Medium''"

definition complexity_words :: "string list" where
  "complexity_words = [''deep'', ''advanced'', ''complex'', ''science'']"

definition estimate_difficulty :: "string \<Rightarrow> string \<Rightarrow> string" where
  "estimate_difficulty category title =
     (let base_difficulty = base_difficulty category in
      if any_in complexity_words (lower title) then
        (if base_difficulty = ''Easy'' then ''Medium''
         else if base_difficulty = ''Medium'' then ''Hard''
         else base_difficulty)
      else base_difficulty)"

section \<open>content\_generator.py: titles\<close>

definition content_templates :: "(string \<times> string list) list" where
  "content_templates =
     [(''tutorial'',
        [''How to Build {} in {} Minutes'', ''Complete {} Tutorial for Beginners'',
         ''Master {} in {} Steps'', ''{} Explained Simply'', ''Build Your First {} Project'']),
      (''news'',
        [''Breaking: {} Changes Everything'', ''Latest {} Updates You Need to Know'',
         ''{} News This Week'', ''Why {} is Trending Now'', ''The Future of {} is Here'']),
      (''comparison'',
        [''{} vs {}: Which is Better?'', ''Comparing {} and {} in {}'',
         ''{} or {}? The Ultimate Guide'', ''Why {} Beats {} Every Time'',
         ''The Truth About {} vs {}'']),
      (''explanation'',
        [''{} Explained in {} Minutes'', ''What is {}? Everything You Need to Know'',
         ''Understanding {} Once and For All'', ''The Science Behind {}'',
         ''How {} Actually Works'']),
      (''prediction'',
        [''Why {} Will Dominate {}'', ''The Future of {} in {}'', ''{} Predictions for {}'',
         ''What's Next for {}?'', ''How {} Will Change {}'']),
      (''review'',
        [''I Tested {} for {} Days'', ''{} Review: Is It Worth It?'',
         ''Honest {} Review After {} Months'', ''The Truth About {}'',
         ''{} Deep Dive Review''])]"

text \<open>\<open>_format_topic\<close>.\<close>

definition abbreviations :: "(string \<times> string) list" where
  "abbreviations =
     [(''ai'', ''AI''), (''ml'', ''Machine Learning''), (''nlp'', ''NLP''), (''gpt'', ''GPT''),
      (''llm'', ''Large Language Models'')]"

definition format_topic :: "string \<Rightarrow> string" where
  "format_topic topic =
     (case map_of abbreviations (lower topic) of
        Some a \<Rightarrow> a
      | None \<Rightarrow> join '' '' (map capitalize (split topic)))"

text \<open>The loop of \<open>_generate_title_from_template\<close> over the selected topics.\<close>

fun fill_topics :: "string list \<Rightarrow> string \<Rightarrow> string" where
  "fill_topics [] title = title"
| "fill_topics (topic # selected_topics) title =
     fill_topics selected_topics
       (if str_in ''{}'' title then replace_first ''{}'' (format_topic topic) title else title)"

text \<open>The list from which the \<open>while\<close> loop draws the next filler; \<open>str(n)\<close> of a drawn
  number is the drawn element of the list of their decimal strings.\<close>

definition filler_pool :: "string \<Rightarrow> string list" where
  "filler_pool title =
     (if str_in ''minutes'' (lower title) \<or> str_in ''steps'' (lower title)
      then [''5'', ''10'', ''15'', ''20'', ''30'']
      else if str_in ''days'' (lower title) then [''7'', ''14'', ''30'', ''60'', ''90'']
      else if str_in ''months'' (lower title) then [''1'', ''3'', ''6'', ''12'']
      else [''2024'', ''2025'', ''Today'', ''Now''])"

text \<open>Each round of the \<open>while\<close> loop removes one opening brace from the title, which
  is why it ends.\<close>

lemma random_choice_member: "random_choice xs g = Inr (v, g') \<Longrightarrow> v \<in> set xs"
  by (auto simp: random_choice_def split: if_splits)

lemma filler_pool_no_brace: "v \<in> set (filler_pool title) \<Longrightarrow> CHR ''{'' \<notin> set v"
  by (auto simp: filler_pool_def split: if_splits)

lemma replace_placeholder_fewer_braces:
  "str_in ''{}'' s \<Longrightarrow> CHR ''{'' \<notin> set v \<Longrightarrow>
     count_list (replace_first ''{}'' v s) (CHR ''{'') < count_list s (CHR ''{'')"
proof (induction s)
  case Nil
  then show ?case by simp
next
  case (Cons c cs)
  show ?case
  proof (cases "prefix ''{}'' (c # cs)")
    case True
    then obtain r where r: "c # cs = ''{}'' @ r"
      by (auto simp: prefix_def)
    have "count_list v (CHR ''{'') = 0"
      using Cons.prems(2) by (simp add: count_list_0_iff)
    then show ?thesis
      using True r by simp
  next
    case False
    with Cons.prems(1) have "str_in ''{}'' cs"
      by auto
    from Cons.IH [OF this Cons.prems(2)] False show ?thesis
      by simp
  qed
qed

function fill_remaining :: "string \<Rightarrow> rng \<Rightarrow> py_error + (string \<times> rng)" where
  "fill_remaining title g =
     (if str_in ''{}'' title then
        (case random_choice (filler_pool title) g of
           Inl e \<Rightarrow> Inl e
         | Inr (v, g') \<Rightarrow> fill_remaining (replace_first ''{}'' v title) g')
      else Inr (title, g))"
  by pat_completeness auto
termination
proof (relation "measure (\<lambda>(title, g). count_list title (CHR ''{''))")
  show "wf (measure (\<lambda>(title, g). count_list title (CHR ''{'')))"
    by simp
next
  fix title :: string and g :: rng and x v g'
  assume "str_in ''{}'' title" and "random_choice (filler_pool title) g = Inr x"
    and "(v, g') = x"
  then have "CHR ''{'' \<notin> set v"
    using random_choice_member [of "filler_pool title" g v g'] filler_pool_no_brace [of v title]
    by simp
  with \<open>str_in ''{}'' title\<close>
  show "((replace_first ''{}'' v title, g'), (title, g))
          \<in> measure (\<lambda>(title, g). count_list title (CHR ''{''))"
    by (simp add: replace_placeholder_fewer_braces)
qed

definition generate_title_from_template ::
  "string \<Rightarrow> string list \<Rightarrow> rng \<Rightarrow> py_error + (string \<times> rng)" where
  "generate_title_from_template template topics g =
     (let placeholder_count = str_count ''{}'' template in
      if placeholder_count = 0 then Inr (template, g)
      else
        (case random_sample topics (min placeholder_count (length topics)) g of
           Inl e \<Rightarrow> Inl e
         | Inr (selected_topics, g') \<Rightarrow>
             (let title = fill_topics selected_topics template
              in fill_remaining title g')))"

text \<open>The first statements of the loop body of \<open>generate_content_ideas\<close>: a category, one
  of its templates, and the title; \<open>top_topics\<close> are the first 20 keys of the trend table.\<close>

definition choose_template :: "rng \<Rightarrow> py_error + ((string \<times> string) \<times> rng)" where
  "choose_template g =
     (case random_choice (map fst content_templates) g of
        Inl e \<Rightarrow> Inl e
      | Inr (category, g') \<Rightarrow>
          (case map_of content_templates category of
             None \<Rightarrow> Inl KeyError
           | Some templates \<Rightarrow>
               (case random_choice templates g' of
                  Inl e \<Rightarrow> Inl e
                | Inr (template, g'') \<Rightarrow> Inr ((category, template), g''))))"

definition generate_idea_title ::
  "(string \<times> int) list \<Rightarrow> rng \<Rightarrow> py_error + ((string \<times> string) \<times> rng)" where
  "generate_idea_title trending_topics g =
     (let top_topics = slice_to 20 (map fst trending_topics) in
      case choose_template g of
        Inl e \<Rightarrow> Inl e
      | Inr ((category, template), g') \<Rightarrow>
          (case generate_title_from_template template top_topics g' of
             Inl e \<Rightarrow> Inl e
           | Inr (title, g'') \<Rightarrow> Inr ((category, title), g'')))"

text \<open>Filling a template: the placeholders of a text are replaced, from
  left to right, by the strings of a list.\<close>

fun fill_with :: "string list \<Rightarrow> string \<Rightarrow> string" where
  "fill_with [] t = t"
| "fill_with (v # vs) t = fill_with vs (replace_first ''{}'' v t)"

text \<open>Every string of the list is inserted into a title that still has a placeholder, and
  is taken from the pool that belongs to that title.\<close>

fun filled_from_pools :: "string \<Rightarrow> string list \<Rightarrow> bool" where
  "filled_from_pools t [] = True"
| "filled_from_pools t (v # vs) =
     (str_in ''{}'' t \<and> v \<in> set (filler_pool t)
      \<and> filled_from_pools (replace_first ''{}'' v t) vs)"

section \<open>content\_generator.py: hashtags\<close>

text \<open>The score that the loop of \<open>_select_hashtags_for_topic\<close> gives one hashtag.\<close>

definition hashtag_score :: "string \<Rightarrow> string \<Rightarrow> int" where
  "hashtag_score title_lower hashtag =
     (let hashtag_clean = lower (delete_char (CHR ''#'') hashtag);
          score = 0;
          score = (if str_in hashtag_clean title_lower then score + 10 else score);
          score = score_keywords 5 (split hashtag_clean) title_lower score;
          score = (if list_ex (\<lambda>keyword. str_in keyword hashtag_clean)
                        [''ai'', ''ml'', ''tech'', ''coding'', ''tutorial'']
                   then score + 3 else score)
      in score)"

text \<open>The loop over the candidate hashtags, with the dictionary \<open>hashtag_scores\<close> as
  accumulator.\<close>

fun score_hashtags ::
  "string \<Rightarrow> string list \<Rightarrow> (string \<times> int) list \<Rightarrow> (string \<times> int) list" where
  "score_hashtags title_lower [] hashtag_scores = hashtag_scores"
| "score_hashtags title_lower (hashtag # hashtags) hashtag_scores =
     score_hashtags title_lower hashtags
       (let score = hashtag_score title_lower hashtag in
        if score > 0 then dict_set hashtag score hashtag_scores else hashtag_scores)"

definition popular_ai_hashtags :: "string list" where
  "popular_ai_hashtags =
     [''#AI'', ''#MachineLearning'', ''#Tech'', ''#Programming'', ''#Tutorial'', ''#Coding'']"

text \<open>The \<open>while\<close> loop that pops the popular hashtags one by one.\<close>

fun pad_hashtags :: "string list \<Rightarrow> string list \<Rightarrow> string list" where
  "pad_hashtags relevant_hashtags [] = relevant_hashtags"
| "pad_hashtags relevant_hashtags (hashtag # popular) =
     (if length relevant_hashtags < 8 then
        pad_hashtags
          (if hashtag \<notin> set relevant_hashtags then relevant_hashtags @ [hashtag]
           else relevant_hashtags)
          popular
      else relevant_hashtags)"

definition select_hashtags_for_topic :: "string \<Rightarrow> string list \<Rightarrow> int \<Rightarrow> string list" where
  "select_hashtags_for_topic title hashtags max_hashtags =
     (let title_lower = lower title;
          hashtag_scores = score_hashtags title_lower hashtags [];
          sorted_hashtags = sort_reverse snd hashtag_scores;
          relevant_hashtags = map fst (slice_to max_hashtags sorted_hashtags)
      in pad_hashtags relevant_hashtags popular_ai_hashtags)"

section \<open>content\_generator.py: per-category tables and the script dispatch\<close>

definition thumbnail_concepts :: "(string \<times> string list) list" where
  "thumbnail_concepts =
     [(''tutorial'',
        [''Split-screen showing before/after code results'',
         ''Person pointing at code on a large screen'',
         ''Step-by-step visual progress bars'',
         ''Hand typing on keyboard with code overlay'']),
      (''news'',
        [''Breaking news style with bold red background'',
         ''Tech headlines with shocked expression'',
         ''Trending arrows and news ticker style'',
         ''Professional news anchor setup'']),
      (''comparison'',
        [''Split-screen VS layout with logos'',
         ''Two products side by side with checkmarks'',
         ''Battle-style confrontation design'',
         ''Pros and cons visual comparison'']),
      (''explanation'',
        [''Complex diagram simplified with arrows'',
         ''Teacher-style whiteboard explanation'',
         ''Lightbulb moment with clear graphics'',
         ''Step-by-step visual breakdown'']),
      (''prediction'',
        [''Futuristic crystal ball or fortune teller'',
         ''Timeline with future milestones'',
         ''Rocket ship or upward trending charts'',
         ''Calendar with highlighted future dates'']),
      (''review'',
        [''Product with star ratings overlay'',
         ''Thumbs up/down with product image'',
         ''Before and after user experience'',
         ''Honest review with serious expression''])]"

definition generate_thumbnail_concept ::
  "string \<Rightarrow> string \<Rightarrow> rng \<Rightarrow> py_error + (string \<times> rng)" where
  "generate_thumbnail_concept title category g =
     (let concepts = dict_get thumbnail_concepts category
                       [''Clean, professional design with clear text'']
      in case random_choice concepts g of
           Inl e \<Rightarrow> Inl e
         | Inr (base_concept, g') \<Rightarrow>
             Inr (if str_in ''chatgpt'' (lower title) then base_concept @ '' with ChatGPT logo''
                  else if str_in ''ai'' (lower title)
                    then base_concept @ '' with AI/robot elements''
                  else if str_in ''python'' (lower title) then base_concept @ '' with Python logo''
                  else base_concept,
                  g'))"

definition base_views :: "(string \<times> int) list" where
  "base_views =
     [(''tutorial'', 150000), (''news'', 200000), (''comparison'', 180000),
      (''explanation'', 120000), (''prediction'', 250000), (''review'', 100000)]"

definition estimate_views :: "int \<Rightarrow> string \<Rightarrow> rng \<Rightarrow> int \<times> rng" where
  "estimate_views trend_score category g =
     (let base = dict_get base_views category 150000;
          multiplier = 1 + (of_int trend_score / 100);
          (u, g') = random_uniform (1 / 2) (3 / 2) g;
          estimated = py_int (of_int base * multiplier * u)
      in (estimated, g'))"

definition cta_templates :: "(string \<times> string) list" where
  "cta_templates =
     [(''tutorial'', ''Try building this yourself and share your results in the comments!''),
      (''news'', ''What do you think about this development? Share your thoughts below!''),
      (''comparison'', ''Which option do you prefer? Let me know in the comments!''),
      (''explanation'',
         ''Did this help clarify the concept for you? Ask any questions below!''),
      (''prediction'', ''Do you agree with my predictions? Share your thoughts!''),
      (''review'', ''Are you planning to try this? Let me know what you think!'')]"

definition generate_call_to_action :: "string \<Rightarrow> string" where
  "generate_call_to_action category =
     dict_get cta_templates category ''What are your thoughts? Share them in the comments!''"

text \<open>
  Each of the seven script generators returns a fixed text of several paragraphs with the
  title, or the lowercased title, inserted at one place. A script is kept as the name of its
  text and the inserted string.
\<close>

datatype skeleton = Tutorial | News | Comparison | Explanation | Prediction | Review | General

datatype script = Script skeleton string

definition generate_tutorial_script :: "string \<Rightarrow> script" where
  "generate_tutorial_script title = Script Tutorial (lower title)"

definition generate_news_script :: "string \<Rightarrow> script" where
  "generate_news_script title = Script News (lower title)"

definition generate_comparison_script :: "string \<Rightarrow> script" where
  "generate_comparison_script title = Script Comparison title"

definition generate_explanation_script :: "string \<Rightarrow> script" where
  "generate_explanation_script title = Script Explanation (lower title)"

definition generate_prediction_script :: "string \<Rightarrow> script" where
  "generate_prediction_script title = Script Prediction (lower title)"

definition generate_review_script :: "string \<Rightarrow> script" where
  "generate_review_script title = Script Review (lower title)"

definition generate_general_script :: "string \<Rightarrow> script" where
  "generate_general_script title = Script General title"

text \<open>\<open>_generate_script_for_idea\<close>, from the two keys \<open>category\<close> and \<open>title\<close> that it
  reads from the idea.\<close>

definition generate_script_for_idea :: "string \<Rightarrow> string \<Rightarrow> script" where
  "generate_script_for_idea category title =
     (if category = ''tutorial'' then generate_tutorial_script title
      else if category = ''news'' then generate_news_script title
      else if category = ''comparison'' then generate_comparison_script title
      else if category = ''explanation'' then generate_explanation_script title
      else if category = ''prediction'' then generate_prediction_script title
      else if category = ''review'' then generate_review_script title
      else generate_general_script title)"

definition categories :: "string list" where
  "categories =
     [''tutorial'', ''news'', ''comparison'', ''explanation'', ''prediction'', ''review'']"

definition example_rng :: rng where
  "example_rng i = i"

section \<open>Facts about the built-ins\<close>

lemma pow2_pos: "0 < pow2 e"
  by (simp add: pow2_def)

lemma round_half_even_nonneg: "0 \<le> x \<Longrightarrow> 0 \<le> round_half_even x"
  by (auto simp: round_half_even_def Let_def)

lemma fl_nonneg: "0 \<le> x \<Longrightarrow> 0 \<le> fl x"
proof (cases "x = 0")
  case True
  then show ?thesis
    by (simp add: fl_def)
next
  case False
  assume "0 \<le> x"
  with False have pos: "0 < x"
    by simp
  define e where "e = max (ilog2 \<bar>x\<bar> - 52) (- 1074)"
  have "0 \<le> \<bar>x\<bar> / pow2 e"
    using pow2_pos [of e] by simp
  then have "0 \<le> round_half_even (\<bar>x\<bar> / pow2 e)"
    by (rule round_half_even_nonneg)
  then have "0 \<le> of_int (round_half_even (\<bar>x\<bar> / pow2 e)) * pow2 e"
    using pow2_pos [of e] by (intro mult_nonneg_nonneg) simp_all
  then show ?thesis
    using pos False by (simp add: fl_def Let_def e_def)
qed

lemma fmul_nonneg: "0 \<le> a \<Longrightarrow> 0 \<le> b \<Longrightarrow> 0 \<le> fmul a b"
  unfolding fmul_def by (intro fl_nonneg mult_nonneg_nonneg)

lemma fadd_nonneg: "0 \<le> a \<Longrightarrow> 0 \<le> b \<Longrightarrow> 0 \<le> fadd a b"
  unfolding fadd_def by (intro fl_nonneg add_nonneg_nonneg)

lemma fdiv_nonneg: "0 \<le> a \<Longrightarrow> 0 \<le> b \<Longrightarrow> 0 \<le> fdiv a b"
  unfolding fdiv_def by (intro fl_nonneg divide_nonneg_nonneg)

lemma str_in_sublist: "str_in n h = sublist n h"
  by (induction h) (auto simp: sublist_Cons_right)

lemma score_keywords_count:
  "score_keywords w ks text s = s + w * int (length (filter (\<lambda>k. str_in k text) ks))"
  by (induction ks arbitrary: s) (simp_all add: algebra_simps)

lemma dict_get_cases:
  "dict_get d k dflt = dflt \<or> dict_get d k dflt \<in> snd ` set d"
  by (auto simp: dict_get_def split: option.splits dest!: map_of_SomeD intro: rev_image_eqI)

lemma card_filter_distinct:
  "distinct ks \<Longrightarrow> card {k \<in> set ks. P k} = length (filter P ks)"
proof -
  assume "distinct ks"
  then have "distinct (filter P ks)"
    by simp
  then have "card (set (filter P ks)) = length (filter P ks)"
    by (rule distinct_card)
  then show ?thesis
    by simp
qed

lemma score_topics_sum:
  "score_topics tt hay s =
     s + sum_list (map (\<lambda>p. 2 * snd p) (filter (\<lambda>p. str_in (fst p) hay) tt))"
  by (induction tt hay s rule: score_topics.induct) simp_all

lemma sum_items_as_table:
  "distinct (map fst tt) \<Longrightarrow>
     sum_list (map (\<lambda>p. 2 * snd p) (filter (\<lambda>p. P (fst p)) tt)) =
     (\<Sum>t \<in> {t \<in> dom (map_of tt). P t}. 2 * the (map_of tt t))"
proof (induction tt)
  case Nil
  then show ?case by simp
next
  case (Cons p tt)
  obtain k v where p: "p = (k, v)" by (cases p)
  from Cons.prems p have k: "k \<notin> dom (map_of tt)" and d: "distinct (map fst tt)"
    by (auto simp: dom_map_of_conv_image_fst)
  have fin: "finite {t \<in> dom (map_of tt). P t}"
    by (simp add: finite_dom_map_of)
  have same: "(\<Sum>t \<in> {t \<in> dom (map_of tt). P t}. 2 * the (map_of (p # tt) t)) =
              (\<Sum>t \<in> {t \<in> dom (map_of tt). P t}. 2 * the (map_of tt t))"
    using k p by (intro sum.cong) auto
  show ?case
  proof (cases "P k")
    case True
    have set_eq: "{t \<in> dom (map_of (p # tt)). P t} = insert k {t \<in> dom (map_of tt). P t}"
      using p True by auto
    have notin: "k \<notin> {t \<in> dom (map_of tt). P t}"
      using k by simp
    have "(\<Sum>t \<in> {t \<in> dom (map_of (p # tt)). P t}. 2 * the (map_of (p # tt) t)) =
          2 * the (map_of (p # tt) k)
          + (\<Sum>t \<in> {t \<in> dom (map_of tt). P t}. 2 * the (map_of (p # tt) t))"
      unfolding set_eq by (rule sum.insert [OF fin notin])
    also have "\<dots> = 2 * v + (\<Sum>t \<in> {t \<in> dom (map_of tt). P t}. 2 * the (map_of tt t))"
      unfolding same by (simp add: p)
    finally have rhs: "(\<Sum>t \<in> {t \<in> dom (map_of (p # tt)). P t}. 2 * the (map_of (p # tt) t)) =
          2 * v + (\<Sum>t \<in> {t \<in> dom (map_of tt). P t}. 2 * the (map_of tt t))" .
    have lhs: "sum_list (map (\<lambda>p. 2 * snd p) (filter (\<lambda>p. P (fst p)) (p # tt))) =
          2 * v + sum_list (map (\<lambda>p. 2 * snd p) (filter (\<lambda>p. P (fst p)) tt))"
      using True by (simp add: p)
    show ?thesis
      unfolding lhs rhs Cons.IH [OF d] ..
  next
    case False
    then have "{t \<in> dom (map_of (p # tt)). P t} = {t \<in> dom (map_of tt). P t}"
      using p by auto
    then have "(\<Sum>t \<in> {t \<in> dom (map_of (p # tt)). P t}. 2 * the (map_of (p # tt) t)) =
               (\<Sum>t \<in> {t \<in> dom (map_of tt). P t}. 2 * the (map_of tt t))"
      using same by simp
    then have rhs: "(\<Sum>t \<in> {t \<in> dom (map_of (p # tt)). P t}. 2 * the (map_of (p # tt) t)) =
               (\<Sum>t \<in> {t \<in> dom (map_of tt). P t}. 2 * the (map_of tt t))" .
    have lhs: "sum_list (map (\<lambda>p. 2 * snd p) (filter (\<lambda>p. P (fst p)) (p # tt))) =
          sum_list (map (\<lambda>p. 2 * snd p) (filter (\<lambda>p. P (fst p)) tt))"
      using False by (simp add: p)
    show ?thesis
      unfolding lhs rhs Cons.IH [OF d] ..
  qed
qed

section \<open>The relevance gate\<close>

lemma lower_append: "lower (a @ b) = lower a @ lower b"
  by (simp add: lower_def)

lemma lower_space: "lower '' '' = '' ''"
  by (simp add: lower_def lower_char_def)

lemma text_to_check_lower:
  "text_to_check c = lower (channel_title c @ '' '' @ channel.description c)"
  unfolding text_to_check_def lower_append lower_space ..

lemma distinct_ai_indicators: "distinct ai_indicators"
  unfolding ai_indicators_def by code_simp

text \<open>
  C2. A channel passes the relevance gate exactly when at least two distinct keywords of the
  indicator list occur as substrings of the lowercased text made of its title, one space, and
  its description. The channel with 60000 subscribers, title "AI Explained" and description
  "machine learning tutorials" passes the gate and the subscriber threshold of 50000.
\<close>

theorem ai_relevance_gate:
  "(is_ai_related_channel c \<longleftrightarrow>
      2 \<le> card {k \<in> set ai_indicators.
                  str_in k (lower (channel_title c @ '' '' @ channel.description c))})
   \<and> subscriber_count ai_explained = 60000
   \<and> channel_title ai_explained = ''AI Explained''
   \<and> channel.description ai_explained = ''machine learning tutorials''
   \<and> is_ai_related_channel ai_explained
   \<and> MIN_SUBSCRIBER_COUNT = 50000
   \<and> subscriber_count ai_explained \<ge> MIN_SUBSCRIBER_COUNT"
proof -
  have gate: "is_ai_related_channel c \<longleftrightarrow>
      2 \<le> card {k \<in> set ai_indicators.
                  str_in k (lower (channel_title c @ '' '' @ channel.description c))}"
    by (simp add: is_ai_related_channel_def Let_def score_keywords_count
        card_filter_distinct [OF distinct_ai_indicators] text_to_check_lower)
  have scenario: "is_ai_related_channel ai_explained"
    by code_simp
  from gate scenario show ?thesis
    by (simp add: ai_explained_def MIN_SUBSCRIBER_COUNT_def)
qed

text \<open>The space between title and description matters. The channel with title "Deep" and
  description "Learning AI" passes the gate, since "deep learning" and "ai" occur in
  "deep learning ai"; in "deeplearning ai" only "ai" occurs.\<close>

theorem ai_relevance_gate_needs_separator:
  "is_ai_related_channel deep_channel
   \<and> plain_matches deep_channel = [''ai'']
   \<and> \<not> 2 \<le> card (set (plain_matches deep_channel))"
proof -
  have gate: "is_ai_related_channel deep_channel"
    by code_simp
  have plain: "plain_matches deep_channel = [''ai'']"
    by code_simp
  from gate plain show ?thesis
    by simp
qed

section \<open>Bounds of the channel scores\<close>

lemma relevance_bounds:
  "0 \<le> calculate_ai_relevance_score c \<and> calculate_ai_relevance_score c \<le> 100"
  by (simp add: calculate_ai_relevance_score_def Let_def score_keywords_count)

lemma growth_bounds:
  assumes "0 \<le> video_count c" and "0 \<le> channel.view_count c"
  shows "0 \<le> calculate_growth_score age c \<and> calculate_growth_score age c \<le> 1000"
proof -
  have "0 \<le> g" if "growth_try age c = Inr (Some g)" for g
  proof -
    from that obtain s d where d: "0 < d" and
      g: "g = min (fadd (fmul (fmul (fdiv (of_int (video_count c)) (of_int d)) 365) 10)
                     (fdiv (fdiv (of_int (channel.view_count c))
                              (of_int (max (video_count c) 1))) 10000)) 1000"
      by (auto simp: growth_try_def Let_def split: option.splits if_splits)
    have "0 \<le> fdiv (of_int (video_count c)) (of_int d)"
      using assms d by (intro fdiv_nonneg) simp_all
    then have "0 \<le> fmul (fdiv (of_int (video_count c)) (of_int d)) 365"
      by (rule fmul_nonneg) simp
    then have left: "0 \<le> fmul (fmul (fdiv (of_int (video_count c)) (of_int d)) 365) 10"
      by (rule fmul_nonneg) simp
    have "0 \<le> fdiv (of_int (channel.view_count c)) (of_int (max (video_count c) 1))"
      using assms by (intro fdiv_nonneg) simp_all
    then have right: "0 \<le> fdiv (fdiv (of_int (channel.view_count c))
                              (of_int (max (video_count c) 1))) 10000"
      by (rule fdiv_nonneg) simp
    from left right have "0 \<le> fadd (fmul (fmul (fdiv (of_int (video_count c)) (of_int d)) 365) 10)
                     (fdiv (fdiv (of_int (channel.view_count c))
                              (of_int (max (video_count c) 1))) 10000)"
      by (rule fadd_nonneg)
    then show ?thesis
      unfolding g by (simp only: min_def split: if_split) simp
  qed
  moreover have "g \<le> 1000" if "growth_try age c = Inr (Some g)" for g
    using that by (auto simp: growth_try_def Let_def split: option.splits if_splits)
  ultimately show ?thesis
    by (auto simp: calculate_growth_score_def split: sum.splits option.splits)
qed

text \<open>
  C4. For every channel with non-negative subscriber, video and view counts, whatever its
  publication date and whether or not the date can be read, the relevance score lies
  between 0 and 100 and the growth score between 0 and 1000.
\<close>

theorem channel_score_bounds:
  assumes "0 \<le> subscriber_count c" and "0 \<le> video_count c" and "0 \<le> channel.view_count c"
  shows "0 \<le> calculate_ai_relevance_score c \<and> calculate_ai_relevance_score c \<le> 100
         \<and> 0 \<le> calculate_growth_score age_days c \<and> calculate_growth_score age_days c \<le> 1000"
  using relevance_bounds [of c] growth_bounds [OF assms(2,3), of age_days]
  by blast

theorem channel_score_bounds_witness:
  "0 \<le> subscriber_count ai_explained \<and> 0 \<le> video_count ai_explained
   \<and> 0 \<le> channel.view_count ai_explained
   \<and> calculate_ai_relevance_score ai_explained = 45
   \<and> calculate_growth_score example_clock ai_explained = 375 / 2
   \<and> 0 \<le> calculate_ai_relevance_score ai_explained
   \<and> calculate_ai_relevance_score ai_explained \<le> 100
   \<and> 0 \<le> calculate_growth_score example_clock ai_explained
   \<and> calculate_growth_score example_clock ai_explained \<le> 1000"
proof -
  have h: "0 \<le> subscriber_count ai_explained" "0 \<le> video_count ai_explained"
    "0 \<le> channel.view_count ai_explained"
    by (simp_all add: ai_explained_def)
  have r: "calculate_ai_relevance_score ai_explained = 45"
    by code_simp
  have g: "calculate_growth_score example_clock ai_explained = 375 / 2"
    by code_simp
  from channel_score_bounds [OF h, of example_clock] h r g show ?thesis
    by blast
qed

section \<open>Dates that are missing or cannot be read\<close>

text \<open>
  C8. When the \<open>published_at\<close> field of a channel is missing or cannot be read as a date,
  the \<open>try\<close> block of the growth score raises and the growth score is 0. When the
  \<open>published_at\<close> field of a video is missing or cannot be read, the \<open>try\<close> block of the
  recency score raises, the recency score is 0, and the performance score is the sum of its
  two other terms. Both functions return a value: the exception stays inside.
\<close>

theorem unreadable_date_scores_zero:
  "((case channel.published_at c of None \<Rightarrow> True | Some s \<Rightarrow> age_days s = None) \<longrightarrow>
      isl (growth_try age_days c) \<and> calculate_growth_score age_days c = 0)
   \<and> ((case video.published_at v of None \<Rightarrow> True | Some s \<Rightarrow> age_days s = None) \<longrightarrow>
      isl (recency_try age_days v) \<and> recency_score age_days v = 0
      \<and> calculate_performance_score age_days v i =
          of_int (video.view_count v) / of_int (max (subscriber_count i) 1) * 1000
          + engagement_rate v * 10)"
  by (auto simp: growth_try_def calculate_growth_score_def recency_try_def recency_score_def
      calculate_performance_score_def Let_def split: option.splits)

theorem unreadable_date_scores_zero_witness:
  "(case channel.published_at tech_lab of None \<Rightarrow> True | Some s \<Rightarrow> example_clock s = None)
   \<and> (case video.published_at undated_video of None \<Rightarrow> True
       | Some s \<Rightarrow> example_clock s = None)
   \<and> calculate_growth_score example_clock tech_lab = 0
   \<and> recency_score example_clock undated_video = 0
   \<and> calculate_performance_score example_clock undated_video ai_explained = 5180 / 3"
proof -
  have c: "case channel.published_at tech_lab of None \<Rightarrow> True
           | Some s \<Rightarrow> example_clock s = None"
    by (simp add: tech_lab_def example_clock_def)
  have v: "case video.published_at undated_video of None \<Rightarrow> True
           | Some s \<Rightarrow> example_clock s = None"
    by (simp add: undated_video_def)
  have p: "of_int (video.view_count undated_video)
             / of_int (max (subscriber_count ai_explained) 1) * 1000
           + engagement_rate undated_video * 10 = (5180 / 3 :: rat)"
    by (simp add: undated_video_def ai_explained_def)
  from unreadable_date_scores_zero [where c = tech_lab and age_days = example_clock
      and v = undated_video and i = ai_explained] c v p
  show ?thesis
    by simp
qed

section \<open>The influencer ranking\<close>

lemma filter_channels_eq:
  "filter_channels age cs acc =
     acc @ map (enrich age)
       (filter (\<lambda>c. subscriber_count c \<ge> MIN_SUBSCRIBER_COUNT \<and> is_ai_related_channel c) cs)"
  by (induction cs arbitrary: acc) simp_all

lemma slice_to_nonneg: "0 \<le> n \<Longrightarrow> slice_to n xs = take (nat n) xs"
  by (simp add: slice_to_def)

lemma sort_reverse_mset: "mset (sort_reverse key xs) = mset xs"
  by (simp add: sort_reverse_def)

lemma sort_reverse_sorted:
  "sorted_wrt (\<lambda>a b. key a \<ge> key b) (sort_reverse key xs)"
proof -
  have "sorted (map key (sort_key key (rev xs)))"
    by (rule sorted_sort_key)
  then have "sorted_wrt (\<lambda>a b. key a \<le> key b) (sort_key key (rev xs))"
    by (simp add: sorted_map)
  then show ?thesis
    by (simp add: sort_reverse_def sorted_wrt_rev)
qed

lemma sort_reverse_stable:
  "filter (\<lambda>x. key x = k) (sort_reverse key xs) = filter (\<lambda>x. key x = k) xs"
proof -
  have "filter (\<lambda>x. key x = k) (sort_key key (rev xs)) = filter (\<lambda>x. key x = k) (rev xs)"
    by (rule sort_key_stable)
  then have "rev (filter (\<lambda>x. key x = k) (sort_key key (rev xs))) = filter (\<lambda>x. key x = k) xs"
    by (simp add: rev_filter)
  then show ?thesis
    by (simp add: sort_reverse_def rev_filter)
qed

lemma sort_reverse_eq_sort_key_neg:
  fixes key :: "'a \<Rightarrow> rat"
  shows "sort_reverse key xs = sort_key (\<lambda>x. - key x) xs"
proof (rule sym, rule properties_for_sort_key)
  show "mset (sort_reverse key xs) = mset xs"
    by (rule sort_reverse_mset)
next
  fix k
  have "filter (\<lambda>x. key x = key k) (sort_reverse key xs) = filter (\<lambda>x. key x = key k) xs"
    by (rule sort_reverse_stable)
  then show "filter (\<lambda>x. - key k = - key x) (sort_reverse key xs)
             = filter (\<lambda>x. - key k = - key x) xs"
    by (simp add: eq_commute)
next
  have "sorted_wrt (\<lambda>a b. key a \<ge> key b) (sort_reverse key xs)"
    by (rule sort_reverse_sorted)
  then show "sorted (map (\<lambda>x. - key x) (sort_reverse key xs))"
    by (simp add: sorted_map)
qed

lemma example_gates:
  "is_ai_related_channel ai_explained" "is_ai_related_channel tech_lab"
  "is_ai_related_channel tech_lab_two" "\<not> is_ai_related_channel cooking"
  "is_ai_related_channel lab_a" "is_ai_related_channel lab_b"
  by code_simp+

lemma example_subscribers:
  "subscriber_count ai_explained = 60000" "subscriber_count tech_lab = 80000"
  "subscriber_count tech_lab_two = 80000" "subscriber_count cooking = 900000"
  "subscriber_count lab_a = 81863" "subscriber_count lab_b = 81923"
  by (simp_all add: ai_explained_def tech_lab_def tech_lab_two_def cooking_def lab_a_def
      lab_b_def)

lemma example_keys:
  "combined_score (enrich example_clock ai_explained) = 96279 / 4"
  "combined_score (enrich example_clock tech_lab) = 64009 / 2"
  "combined_score (enrich example_clock tech_lab_two) = 64009 / 2"
  "combined_score (enrich example_clock lab_a) = 2252294593917747 / 68719476736"
  "combined_score (enrich example_clock lab_b) = 4504589187835495 / 137438953472"
  by code_simp+

lemma example_exact:
  "exact_composite (enrich example_clock lab_a) = 163876 / 5"
  "exact_composite (enrich example_clock lab_b) = 163876 / 5"
  by code_simp+

text \<open>
  C1. For every list of channel records and every limit that is not negative, the ranker
  returns the first \<open>limit\<close> entries of the ranking, where the ranking holds exactly the
  channels that pass the relevance gate and the subscriber threshold (each with its two
  scores), is sorted by descending sort key, and keeps channels of equal sort key in their
  order in the input. The sort key is the binary64 value of
  \<open>subscriber_count * 0.4 + growth_score * 0.3 + ai_relevance_score * 0.3\<close>, with the
  literals, the three products and the two sums rounded.
\<close>

theorem influencer_ranking:
  assumes "0 \<le> limit"
  shows "find_ai_influencers age_days limit cs = take (nat limit) (ranking_spec age_days cs)
    \<and> mset (ranking_spec age_days cs) =
        mset (map (enrich age_days)
          (filter (\<lambda>c. subscriber_count c \<ge> MIN_SUBSCRIBER_COUNT \<and> is_ai_related_channel c) cs))
    \<and> sorted_wrt (\<lambda>a b. combined_score a \<ge> combined_score b) (ranking_spec age_days cs)
    \<and> (\<forall>k. filter (\<lambda>x. combined_score x = k) (ranking_spec age_days cs) =
             filter (\<lambda>x. combined_score x = k)
               (map (enrich age_days)
                 (filter (\<lambda>c. subscriber_count c \<ge> MIN_SUBSCRIBER_COUNT
                               \<and> is_ai_related_channel c) cs)))
    \<and> (\<forall>x :: influencer. combined_score x =
           fl (fl (fl (fl (of_int (subscriber_count x)) * fl (4 / 10))
                   + fl (growth_score x * fl (3 / 10)))
               + fl (fl (of_int (ai_relevance_score x)) * fl (3 / 10))))"
proof -
  let ?passing = "map (enrich age_days)
          (filter (\<lambda>c. subscriber_count c \<ge> MIN_SUBSCRIBER_COUNT \<and> is_ai_related_channel c) cs)"
  have spec: "ranking_spec age_days cs = sort_reverse combined_score ?passing"
    by (simp add: sort_reverse_eq_sort_key_neg ranking_spec_def)
  have code: "find_ai_influencers age_days limit cs = take (nat limit) (ranking_spec age_days cs)"
    using assms
    by (simp add: find_ai_influencers_def Let_def filter_channels_eq slice_to_nonneg spec)
  have members: "mset (ranking_spec age_days cs) = mset ?passing"
    unfolding spec by (rule sort_reverse_mset)
  have ordered: "sorted_wrt (\<lambda>a b. combined_score a \<ge> combined_score b)
                   (ranking_spec age_days cs)"
    unfolding spec by (rule sort_reverse_sorted)
  have stable: "\<forall>k. filter (\<lambda>x. combined_score x = k) (ranking_spec age_days cs) =
                    filter (\<lambda>x. combined_score x = k) ?passing"
    unfolding spec by (simp add: sort_reverse_stable)
  have key: "\<forall>x :: influencer. combined_score x =
           fl (fl (fl (fl (of_int (subscriber_count x)) * fl (4 / 10))
                   + fl (growth_score x * fl (3 / 10)))
               + fl (fl (of_int (ai_relevance_score x)) * fl (3 / 10)))"
    by (simp only: combined_score_def fadd_def fmul_def float_of_int_def) simp
  from code members ordered stable key show ?thesis
    by blast
qed

theorem influencer_ranking_witness:
  "(0 :: int) \<le> 2
   \<and> find_ai_influencers example_clock 2 [ai_explained, tech_lab, cooking, tech_lab_two]
       = [enrich example_clock tech_lab, enrich example_clock tech_lab_two]"
proof -
  have h: "(0 :: int) \<le> 2"
    by simp
  have e: "take (nat 2) (ranking_spec example_clock [ai_explained, tech_lab, cooking, tech_lab_two])
           = [enrich example_clock tech_lab, enrich example_clock tech_lab_two]"
    by (simp add: ranking_spec_def MIN_SUBSCRIBER_COUNT_def
        example_gates example_subscribers example_keys)
  from influencer_ranking [OF h, of example_clock "[ai_explained, tech_lab, cooking, tech_lab_two]",
      THEN conjunct1] e h
  show ?thesis
    by simp
qed

text \<open>
  Two inputs on which the ranking differs from a truncation of the exact-arithmetic order. With the limit \<open>-1\<close> the
  slice drops the last entry of the ranking instead of returning its first entries: two
  channels pass, one is returned. And the sort key is not the composite score of exact
  arithmetic: the channels \<open>lab_a\<close> (81863 subscribers, relevance 100) and \<open>lab_b\<close> (81923
  subscribers, relevance 20), both with growth 0, have the same exact composite score
  32775.2, but their float sums differ in the last bit, and the ranker returns \<open>lab_b\<close>
  before \<open>lab_a\<close> although \<open>lab_a\<close> comes first in the input.
\<close>

theorem influencer_ranking_counterexample:
  "find_ai_influencers example_clock (- 1) [ai_explained, tech_lab, cooking]
     \<noteq> take (nat (- 1)) (ranking_spec example_clock [ai_explained, tech_lab, cooking])
   \<and> exact_composite (enrich example_clock lab_a) = exact_composite (enrich example_clock lab_b)
   \<and> combined_score (enrich example_clock lab_a) < combined_score (enrich example_clock lab_b)
   \<and> find_ai_influencers example_clock 2 [lab_a, lab_b]
       = [enrich example_clock lab_b, enrich example_clock lab_a]
   \<and> map channel.channel_id (find_ai_influencers example_clock 2 [lab_a, lab_b])
       = [''UC-lab-b'', ''UC-lab-a'']"
proof -
  have negative: "find_ai_influencers example_clock (- 1) [ai_explained, tech_lab, cooking]
     \<noteq> take (nat (- 1)) (ranking_spec example_clock [ai_explained, tech_lab, cooking])"
    by (simp add: find_ai_influencers_def sort_reverse_def slice_to_def
        MIN_SUBSCRIBER_COUNT_def example_gates example_subscribers example_keys)
  have exact: "exact_composite (enrich example_clock lab_a)
                 = exact_composite (enrich example_clock lab_b)"
    by (simp add: example_exact)
  have keys: "combined_score (enrich example_clock lab_a)
                < combined_score (enrich example_clock lab_b)"
    by (simp add: example_keys)
  have order: "find_ai_influencers example_clock 2 [lab_a, lab_b]
                 = [enrich example_clock lab_b, enrich example_clock lab_a]"
    by (simp add: find_ai_influencers_def sort_reverse_def slice_to_def
        MIN_SUBSCRIBER_COUNT_def example_gates example_subscribers example_keys)
  have ids: "map channel.channel_id [enrich example_clock lab_b, enrich example_clock lab_a]
               = [''UC-lab-b'', ''UC-lab-a'']"
    by (simp add: enrich_def lab_a_def lab_b_def)
  from negative exact keys order ids show ?thesis
    by simp
qed

section \<open>Trend score\<close>

text \<open>
  C5. For every title and every trend table (a dictionary, so its keys are distinct), the
  trend score is the sum of \<open>2 * table[t]\<close> over the topics \<open>t\<close> of the table that are
  substrings of the lowercased title, plus 5 for each of the six trending keywords that is a
  substring of the lowercased title, capped at 100. The table \<open>{"ai": 10}\<close> and the title
  "Why AI is the Future" give 25.
\<close>

theorem trend_score_formula:
  assumes "distinct (map fst trending_topics)"
  shows "calculate_trend_score title trending_topics =
           min ((\<Sum>t \<in> {t \<in> dom (map_of trending_topics). str_in t (lower title)}.
                    2 * the (map_of trending_topics t))
                + 5 * int (card {k \<in> set [''2024'', ''2025'', ''new'', ''latest'',
                                          ''breakthrough'', ''future'']. str_in k (lower title)}))
               100
         \<and> calculate_trend_score ''Why AI is the Future'' [(''ai'', 10)] = 25"
proof -
  have kw: "card {k \<in> set trending_keywords. str_in k (lower title)} =
            length (filter (\<lambda>k. str_in k (lower title)) trending_keywords)"
    by (rule card_filter_distinct) (simp add: trending_keywords_def)
  have general: "calculate_trend_score title trending_topics =
           min ((\<Sum>t \<in> {t \<in> dom (map_of trending_topics). str_in t (lower title)}.
                    2 * the (map_of trending_topics t))
                + 5 * int (card {k \<in> set trending_keywords. str_in k (lower title)})) 100"
    unfolding kw
    using sum_items_as_table [OF assms, where P = "\<lambda>t. str_in t (lower title)"]
    by (simp add: calculate_trend_score_def Let_def score_keywords_count score_topics_sum)
  have scenario: "calculate_trend_score ''Why AI is the Future'' [(''ai'', 10)] = 25"
    by (simp add: calculate_trend_score_def trending_keywords_def lower_def lower_char_def)
  from general scenario show ?thesis
    unfolding trending_keywords_def by (rule conjI)
qed

theorem trend_score_formula_witness:
  "distinct (map fst [(''ai'', 10 :: int)])
   \<and> calculate_trend_score ''Why AI is the Future'' [(''ai'', 10)] = 25"
proof -
  have h: "distinct (map fst [(''ai'', 10 :: int)])"
    by simp
  from h trend_score_formula [OF h, of "''Why AI is the Future''", THEN conjunct2]
  show ?thesis
    by (rule conjI)
qed

section \<open>Difficulty\<close>

lemma base_difficulty_range: "base_difficulty category \<in> {''Easy'', ''Medium'', ''Hard''}"
  using dict_get_cases [of difficulty_map category "''Medium''"]
  by (auto simp: base_difficulty_def difficulty_map_def)

text \<open>
  C9. The difficulty starts from the fixed per-category base difficulty (tutorial, comparison
  and prediction Medium, news and review Easy, explanation Hard). When the lowercased title
  contains one of "deep", "advanced", "complex", "science", an Easy base becomes Medium and a
  Medium base becomes Hard; otherwise the base is returned. A Hard base is never changed, and
  the result is always one of Easy, Medium, Hard.
\<close>

theorem estimate_difficulty_escalation:
  "map base_difficulty
       [''tutorial'', ''news'', ''comparison'', ''explanation'', ''prediction'', ''review'']
     = [''Medium'', ''Easy'', ''Medium'', ''Hard'', ''Medium'', ''Easy'']
   \<and> estimate_difficulty category title \<in> {''Easy'', ''Medium'', ''Hard''}
   \<and> (\<not> any_in [''deep'', ''advanced'', ''complex'', ''science''] (lower title) \<longrightarrow>
        estimate_difficulty category title = base_difficulty category)
   \<and> (any_in [''deep'', ''advanced'', ''complex'', ''science''] (lower title) \<longrightarrow>
        (base_difficulty category = ''Easy'' \<longrightarrow>
           estimate_difficulty category title = ''Medium'')
        \<and> (base_difficulty category = ''Medium'' \<longrightarrow>
           estimate_difficulty category title = ''Hard''))
   \<and> (base_difficulty category = ''Hard'' \<longrightarrow> estimate_difficulty category title = ''Hard'')"
proof -
  have table: "map base_difficulty
       [''tutorial'', ''news'', ''comparison'', ''explanation'', ''prediction'', ''review'']
     = [''Medium'', ''Easy'', ''Medium'', ''Hard'', ''Medium'', ''Easy'']"
    by (simp add: base_difficulty_def difficulty_map_def dict_get_def)
  have rest: "estimate_difficulty category title \<in> {''Easy'', ''Medium'', ''Hard''}
   \<and> (\<not> any_in complexity_words (lower title) \<longrightarrow>
        estimate_difficulty category title = base_difficulty category)
   \<and> (any_in complexity_words (lower title) \<longrightarrow>
        (base_difficulty category = ''Easy'' \<longrightarrow>
           estimate_difficulty category title = ''Medium'')
        \<and> (base_difficulty category = ''Medium'' \<longrightarrow>
           estimate_difficulty category title = ''Hard''))
   \<and> (base_difficulty category = ''Hard'' \<longrightarrow> estimate_difficulty category title = ''Hard'')"
    using base_difficulty_range [of category]
    by (auto simp: estimate_difficulty_def Let_def)
  from table rest show ?thesis
    unfolding complexity_words_def by (rule conjI)
qed

theorem estimate_difficulty_escalation_witness:
  "any_in [''deep'', ''advanced'', ''complex'', ''science''] (lower ''AI Deep Dive Review'')
   \<and> base_difficulty ''review'' = ''Easy''
   \<and> estimate_difficulty ''review'' ''AI Deep Dive Review'' = ''Medium''"
proof -
  have w: "any_in [''deep'', ''advanced'', ''complex'', ''science''] (lower ''AI Deep Dive Review'')"
    by (simp add: any_in_def lower_def lower_char_def)
  have b: "base_difficulty ''review'' = ''Easy''"
    by (simp add: base_difficulty_def difficulty_map_def dict_get_def)
  from estimate_difficulty_escalation [of "''review''" "''AI Deep Dive Review''"] w b
  show ?thesis
    by blast
qed

section \<open>Engagement rate\<close>

text \<open>
  C3. For a video with non-negative like, comment and view counts, the engagement rate is
  \<open>min (((like_count + 2 * comment_count) / max view_count 1) * 100) 100\<close>; it lies between
  0 and 100; and the video with 100000 views, 5000 likes and 500 comments has rate 6.
\<close>

theorem engagement_rate_formula_bounds:
  assumes "0 \<le> like_count v" and "0 \<le> comment_count v" and "0 \<le> video.view_count v"
  shows "calculate_engagement_rate v =
           min ((of_int (like_count v + 2 * comment_count v)
                  / of_int (max (video.view_count v) 1)) * 100) 100
         \<and> 0 \<le> calculate_engagement_rate v
         \<and> calculate_engagement_rate v \<le> 100
         \<and> calculate_engagement_rate example_video = 6"
proof -
  let ?q = "(of_int (like_count v + 2 * comment_count v) :: rat)
              / of_int (max (video.view_count v) 1)"
  have eq: "calculate_engagement_rate v = min (?q * 100) 100"
    by (simp add: calculate_engagement_rate_def Let_def mult.commute)
  have "0 \<le> ?q"
    using assms by (intro divide_nonneg_nonneg) simp_all
  then have "0 \<le> ?q * 100"
    by (rule mult_nonneg_nonneg) simp
  then have lo: "0 \<le> min (?q * 100) 100"
    by (simp only: min_def split: if_split) simp
  have ex: "calculate_engagement_rate example_video = 6"
    by (simp add: calculate_engagement_rate_def example_video_def)
  from eq lo ex show ?thesis
    by simp
qed

theorem engagement_rate_formula_bounds_witness:
  "0 \<le> like_count example_video \<and> 0 \<le> comment_count example_video
   \<and> 0 \<le> video.view_count example_video
   \<and> calculate_engagement_rate example_video = 6
   \<and> 0 \<le> calculate_engagement_rate example_video
   \<and> calculate_engagement_rate example_video \<le> 100"
proof -
  have h: "0 \<le> like_count example_video" "0 \<le> comment_count example_video"
    "0 \<le> video.view_count example_video"
    by (simp_all add: example_video_def)
  from engagement_rate_formula_bounds [OF h] h show ?thesis
    by simp
qed

section \<open>Title generation\<close>

lemma str_count_zero_iff: "old \<noteq> [] \<Longrightarrow> str_count old s = 0 \<longleftrightarrow> \<not> str_in old s"
  by (induction old s rule: str_count.induct) auto

lemma replace_first_absent: "\<not> str_in old s \<Longrightarrow> replace_first old new s = s"
  by (induction s) auto

lemma fill_topics_eq: "fill_topics sel t = fill_with (map format_topic sel) t"
  by (induction sel arbitrary: t) (simp_all add: replace_first_absent)

lemma fill_with_append: "fill_with (a @ b) t = fill_with b (fill_with a t)"
  by (induction a arbitrary: t) simp_all

lemma mset_remove_nth:
  "i < length xs \<Longrightarrow> add_mset (xs ! i) (mset (take i xs @ drop (Suc i) xs)) = mset xs"
proof -
  assume "i < length xs"
  then have "xs = take i xs @ xs ! i # drop (Suc i) xs"
    by (rule id_take_nth_drop)
  then have "mset xs = mset (take i xs @ xs ! i # drop (Suc i) xs)"
    by simp
  then show ?thesis
    by simp
qed

lemma random_sample_returns:
  "k \<le> length population \<Longrightarrow>
     \<exists>r g'. random_sample population k g = Inr (r, g') \<and> length r = k
        \<and> mset r \<subseteq># mset population"
proof (induction k arbitrary: population g)
  case 0
  then show ?case by simp
next
  case (Suc k)
  then have ne: "population \<noteq> []"
    by auto
  let ?i = "g 0 mod length population"
  let ?rest = "take ?i population @ drop (Suc ?i) population"
  have i: "?i < length population"
    using ne by simp
  then have "k \<le> length ?rest"
    using Suc.prems by simp
  from Suc.IH [OF this] obtain r g' where
    r: "random_sample ?rest k (g \<circ> Suc) = Inr (r, g')" "length r = k"
       "mset r \<subseteq># mset ?rest"
    by blast
  have "mset (population ! ?i # r) \<subseteq># add_mset (population ! ?i) (mset ?rest)"
    using r(3) by simp
  then have "mset (population ! ?i # r) \<subseteq># mset population"
    unfolding mset_remove_nth [OF i] .
  with r show ?case
    using ne by (simp add: Let_def)
qed

lemma filler_pool_nonempty: "filler_pool title \<noteq> []"
  by (simp add: filler_pool_def)

lemma random_choice_returns: "xs \<noteq> [] \<Longrightarrow> \<exists>v g'. random_choice xs g = Inr (v, g')"
  by (simp add: random_choice_def)

lemma fill_remaining_returns:
  "\<exists>fillers g'. fill_remaining title g = Inr (fill_with fillers title, g')
      \<and> filled_from_pools title fillers \<and> \<not> str_in ''{}'' (fill_with fillers title)"
proof (induction title g rule: fill_remaining.induct)
  case (1 title g)
  show ?case
  proof (cases "str_in ''{}'' title")
    case True
    obtain v g' where c: "random_choice (filler_pool title) g = Inr (v, g')"
      using random_choice_returns [OF filler_pool_nonempty] by blast
    then have v: "v \<in> set (filler_pool title)"
      by (rule random_choice_member)
    from "1.IH" [OF True c refl] obtain fillers g'' where f:
      "fill_remaining (replace_first ''{}'' v title) g'
         = Inr (fill_with fillers (replace_first ''{}'' v title), g'')"
      "filled_from_pools (replace_first ''{}'' v title) fillers"
      "\<not> str_in ''{}'' (fill_with fillers (replace_first ''{}'' v title))"
      by blast
    have "fill_remaining title g = Inr (fill_with (v # fillers) title, g'')"
      using True c f(1) by (subst fill_remaining.simps) simp
    moreover have "filled_from_pools title (v # fillers)"
      using True v f(2) by simp
    moreover have "\<not> str_in ''{}'' (fill_with (v # fillers) title)"
      using f(3) by simp
    ultimately show ?thesis
      by blast
  next
    case False
    then have "fill_remaining title g = Inr (fill_with [] title, g)"
      by (subst fill_remaining.simps) simp
    moreover have "filled_from_pools title []"
      by simp
    moreover have "\<not> str_in ''{}'' (fill_with [] title)"
      using False by simp
    ultimately show ?thesis
      by blast
  qed
qed

lemma generate_title_returns:
  "\<exists>sel fillers g'.
      generate_title_from_template template topics g
        = Inr (fill_with (map format_topic sel @ fillers) template, g')
      \<and> length sel = min (str_count ''{}'' template) (length topics)
      \<and> mset sel \<subseteq># mset topics
      \<and> filled_from_pools (fill_with (map format_topic sel) template) fillers
      \<and> \<not> str_in ''{}'' (fill_with (map format_topic sel @ fillers) template)"
proof (cases "str_count ''{}'' template = 0")
  case True
  then have none: "\<not> str_in ''{}'' template"
    by (simp add: str_count_zero_iff)
  have "generate_title_from_template template topics g
          = Inr (fill_with (map format_topic [] @ []) template, g)"
    using True by (simp add: generate_title_from_template_def)
  moreover have "length ([] :: string list) = min (str_count ''{}'' template) (length topics)"
    using True by simp
  moreover have "mset ([] :: string list) \<subseteq># mset topics"
    by simp
  moreover have "filled_from_pools (fill_with (map format_topic []) template) []"
    by simp
  moreover have "\<not> str_in ''{}'' (fill_with (map format_topic [] @ []) template)"
    using none by simp
  ultimately show ?thesis
    by blast
next
  case False
  obtain sel g1 where
    s: "random_sample topics (min (str_count ''{}'' template) (length topics)) g = Inr (sel, g1)"
       "length sel = min (str_count ''{}'' template) (length topics)"
       "mset sel \<subseteq># mset topics"
    using random_sample_returns [of "min (str_count ''{}'' template) (length topics)" topics g]
    by auto
  obtain fillers g2 where f:
    "fill_remaining (fill_topics sel template) g1
       = Inr (fill_with fillers (fill_topics sel template), g2)"
    "filled_from_pools (fill_topics sel template) fillers"
    "\<not> str_in ''{}'' (fill_with fillers (fill_topics sel template))"
    using fill_remaining_returns by blast
  have "generate_title_from_template template topics g
          = Inr (fill_with (map format_topic sel @ fillers) template, g2)"
    using False s(1) f(1)
    by (simp add: generate_title_from_template_def Let_def fill_topics_eq fill_with_append)
  moreover have "filled_from_pools (fill_with (map format_topic sel) template) fillers"
    using f(2) by (simp add: fill_topics_eq)
  moreover have "\<not> str_in ''{}'' (fill_with (map format_topic sel @ fillers) template)"
    using f(3) by (simp add: fill_topics_eq fill_with_append)
  ultimately show ?thesis
    using s(2,3) by blast
qed

lemma choose_template_returns:
  "\<exists>category templates template g'. choose_template g = Inr ((category, template), g')
      \<and> map_of content_templates category = Some templates \<and> template \<in> set templates"
proof -
  obtain category g1 where c: "random_choice (map fst content_templates) g = Inr (category, g1)"
    using random_choice_returns [of "map fst content_templates" g]
    by (auto simp: content_templates_def)
  then have mem: "category \<in> fst ` set content_templates"
    using random_choice_member [OF c] by simp
  then obtain templates where m: "map_of content_templates category = Some templates"
    and ne: "templates \<noteq> []"
    by (auto simp: content_templates_def)
  obtain template g2 where t: "random_choice templates g1 = Inr (template, g2)"
    using random_choice_returns [OF ne] by blast
  then have "template \<in> set templates"
    by (rule random_choice_member)
  with c m t show ?thesis
    by (simp add: choose_template_def)
qed

text \<open>With the topic "chatgpt" the template "How to Build {} in {} Minutes" gets the
  title-cased topic and a number of minutes; without topics it gets two numbers.\<close>

lemma generate_title_examples:
  "generate_title_from_template ''How to Build {} in {} Minutes'' [''chatgpt''] example_rng
     = Inr (''How to Build Chatgpt in 10 Minutes'', example_rng \<circ> Suc \<circ> Suc)"
  "generate_title_from_template ''How to Build {} in {} Minutes'' [] example_rng
     = Inr (''How to Build 5 in 10 Minutes'', example_rng \<circ> Suc \<circ> Suc)"
  by (simp_all add: generate_title_from_template_def Let_def random_choice_def filler_pool_def
      lower_def lower_char_def comp_def format_topic_def abbreviations_def split_def
      capitalize_def upper_char_def is_space_def example_rng_def)

text \<open>
  C10. For every template (those of the fixed template set among them), every topic list
  and every state of the random generator, title generation returns a title. The title is
  the template with its placeholders replaced from left to right: first by the formatted
  topics of a selection without repetition from the topic list, as many as there are
  placeholders or topics, then by fillers, each taken from the pool of the title it is
  inserted into, until no placeholder \<open>{}\<close> is left. With the empty topic list every
  placeholder gets a filler. The same holds for the title of a generated idea, from one of
  the templates of its category and the first 20 topics of the trend table, for every
  trend table, also the empty one. The pool holds the numbers 5, 10, 15, 20, 30 when the
  lowercased title contains "minutes" or "steps", else 7, 14, 30, 60, 90 when it contains
  "days", else 1, 3, 6, 12 when it contains "months", else "2024", "2025", "Today", "Now".
\<close>

theorem title_generation_fills_placeholders:
  "(\<exists>sel fillers g'.
      generate_title_from_template template topics g
        = Inr (fill_with (map format_topic sel @ fillers) template, g')
      \<and> length sel = min (str_count ''{}'' template) (length topics)
      \<and> mset sel \<subseteq># mset topics
      \<and> filled_from_pools (fill_with (map format_topic sel) template) fillers
      \<and> \<not> str_in ''{}'' (fill_with (map format_topic sel @ fillers) template))
   \<and> (\<exists>fillers g'.
      generate_title_from_template template [] g = Inr (fill_with fillers template, g')
      \<and> filled_from_pools template fillers
      \<and> \<not> str_in ''{}'' (fill_with fillers template))
   \<and> (\<exists>category templates tmpl sel fillers g'.
      generate_idea_title trending_topics g
        = Inr ((category, fill_with (map format_topic sel @ fillers) tmpl), g')
      \<and> map_of content_templates category = Some templates \<and> tmpl \<in> set templates
      \<and> length sel = min (str_count ''{}'' tmpl) (length (take 20 (map fst trending_topics)))
      \<and> mset sel \<subseteq># mset (take 20 (map fst trending_topics))
      \<and> filled_from_pools (fill_with (map format_topic sel) tmpl) fillers
      \<and> \<not> str_in ''{}'' (fill_with (map format_topic sel @ fillers) tmpl))
   \<and> filler_pool t =
       (if str_in ''minutes'' (lower t) \<or> str_in ''steps'' (lower t)
        then [''5'', ''10'', ''15'', ''20'', ''30'']
        else if str_in ''days'' (lower t) then [''7'', ''14'', ''30'', ''60'', ''90'']
        else if str_in ''months'' (lower t) then [''1'', ''3'', ''6'', ''12'']
        else [''2024'', ''2025'', ''Today'', ''Now''])"
proof (intro conjI)
  show "filler_pool t =
       (if str_in ''minutes'' (lower t) \<or> str_in ''steps'' (lower t)
        then [''5'', ''10'', ''15'', ''20'', ''30'']
        else if str_in ''days'' (lower t) then [''7'', ''14'', ''30'', ''60'', ''90'']
        else if str_in ''months'' (lower t) then [''1'', ''3'', ''6'', ''12'']
        else [''2024'', ''2025'', ''Today'', ''Now''])"
    by (rule filler_pool_def)
next
  show "\<exists>sel fillers g'.
      generate_title_from_template template topics g
        = Inr (fill_with (map format_topic sel @ fillers) template, g')
      \<and> length sel = min (str_count ''{}'' template) (length topics)
      \<and> mset sel \<subseteq># mset topics
      \<and> filled_from_pools (fill_with (map format_topic sel) template) fillers
      \<and> \<not> str_in ''{}'' (fill_with (map format_topic sel @ fillers) template)"
    by (rule generate_title_returns)
next
  obtain sel fillers g' where t:
    "generate_title_from_template template [] g
        = Inr (fill_with (map format_topic sel @ fillers) template, g')"
    "length sel = min (str_count ''{}'' template) (length ([] :: string list))"
    "filled_from_pools (fill_with (map format_topic sel) template) fillers"
    "\<not> str_in ''{}'' (fill_with (map format_topic sel @ fillers) template)"
    using generate_title_returns [of template "[]" g] by blast
  from t(2) have "sel = []"
    by simp
  with t show "\<exists>fillers g'.
      generate_title_from_template template [] g = Inr (fill_with fillers template, g')
      \<and> filled_from_pools template fillers
      \<and> \<not> str_in ''{}'' (fill_with fillers template)"
    by auto
next
  obtain category templates tmpl g1 where c: "choose_template g = Inr ((category, tmpl), g1)"
    "map_of content_templates category = Some templates" "tmpl \<in> set templates"
    using choose_template_returns by blast
  obtain sel fillers g2 where t:
    "generate_title_from_template tmpl (take 20 (map fst trending_topics)) g1
        = Inr (fill_with (map format_topic sel @ fillers) tmpl, g2)"
    "length sel = min (str_count ''{}'' tmpl) (length (take 20 (map fst trending_topics)))"
    "mset sel \<subseteq># mset (take 20 (map fst trending_topics))"
    "filled_from_pools (fill_with (map format_topic sel) tmpl) fillers"
    "\<not> str_in ''{}'' (fill_with (map format_topic sel @ fillers) tmpl)"
    using generate_title_returns by blast
  have "generate_idea_title trending_topics g
        = Inr ((category, fill_with (map format_topic sel @ fillers) tmpl), g2)"
    using c(1) t(1) by (simp add: generate_idea_title_def Let_def slice_to_def)
  with c(2,3) t(2-5) show "\<exists>category templates tmpl sel fillers g'.
      generate_idea_title trending_topics g
        = Inr ((category, fill_with (map format_topic sel @ fillers) tmpl), g')
      \<and> map_of content_templates category = Some templates \<and> tmpl \<in> set templates
      \<and> length sel = min (str_count ''{}'' tmpl) (length (take 20 (map fst trending_topics)))
      \<and> mset sel \<subseteq># mset (take 20 (map fst trending_topics))
      \<and> filled_from_pools (fill_with (map format_topic sel) tmpl) fillers
      \<and> \<not> str_in ''{}'' (fill_with (map format_topic sel @ fillers) tmpl)"
    by blast
qed

section \<open>Hashtag selection\<close>

lemma dict_set_keys: "fst ` set (dict_set k v d) = insert k (fst ` set d)"
proof (induction d)
  case Nil
  then show ?case by simp
next
  case (Cons p d)
  obtain k' v' where p: "p = (k', v')"
    by (cases p)
  show ?case
  proof (cases "k' = k")
    case True
    then show ?thesis
      by (simp add: p)
  next
    case False
    then show ?thesis
      using Cons.IH by (simp add: p insert_commute)
  qed
qed

lemma score_hashtags_keys:
  "fst ` set (score_hashtags tl' hs acc) =
     fst ` set acc \<union> {h \<in> set hs. 0 < hashtag_score tl' h}"
  by (induction hs arbitrary: acc) (auto simp: dict_set_keys Let_def)

lemma pad_hashtags_upper: "length (pad_hashtags rel pop) \<le> max (length rel) 8"
proof (induction pop arbitrary: rel)
  case Nil
  then show ?case by simp
next
  case (Cons h pop)
  show ?case
  proof (cases "length rel < 8")
    case True
    let ?rel = "if h \<notin> set rel then rel @ [h] else rel"
    have "length (pad_hashtags ?rel pop) \<le> max (length ?rel) 8"
      by (rule Cons.IH)
    also have "\<dots> \<le> 8"
      using True by simp
    finally show ?thesis
      using True by simp
  next
    case False
    then show ?thesis
      by simp
  qed
qed

lemma pad_hashtags_mono: "length rel \<le> length (pad_hashtags rel pop)"
proof (induction pop arbitrary: rel)
  case Nil
  then show ?case by simp
next
  case (Cons h pop)
  have "length rel \<le> length (if h \<notin> set rel then rel @ [h] else rel)"
    by simp
  also have "\<dots> \<le> length (pad_hashtags (if h \<notin> set rel then rel @ [h] else rel) pop)"
    by (rule Cons.IH)
  finally show ?case
    by simp
qed

lemma pad_hashtags_lower:
  "8 \<le> card (set rel \<union> set pop) \<Longrightarrow> 8 \<le> length (pad_hashtags rel pop)"
proof (induction pop arbitrary: rel)
  case Nil
  have "card (set rel) \<le> length rel"
    by (rule card_length)
  with Nil show ?case
    by simp
next
  case (Cons h pop)
  show ?case
  proof (cases "length rel < 8")
    case True
    let ?rel = "if h \<notin> set rel then rel @ [h] else rel"
    have "set rel \<union> set (h # pop) = set ?rel \<union> set pop"
      by auto
    with Cons.prems have "8 \<le> card (set ?rel \<union> set pop)"
      by simp
    from Cons.IH [OF this] True show ?thesis
      by simp
  next
    case False
    then show ?thesis
      by simp
  qed
qed

lemma sort_reverse_set: "set (sort_reverse key xs) = set xs"
  by (simp add: sort_reverse_def)

lemma sort_reverse_length: "length (sort_reverse key xs) = length xs"
  by (simp add: sort_reverse_def)

text \<open>
  C6. For every title and every list of candidate hashtags, the selection (with the default
  maximum of 15) returns at most 15 hashtags, and at least 8 whenever the candidates with a
  positive score together with the six popular hashtags are at least 8 distinct strings.
\<close>

theorem hashtag_selection_bounds:
  "length (select_hashtags_for_topic title hashtags 15) \<le> 15
   \<and> (8 \<le> card ({h \<in> set hashtags. 0 < hashtag_score (lower title) h}
                 \<union> set [''#AI'', ''#MachineLearning'', ''#Tech'', ''#Programming'',
                        ''#Tutorial'', ''#Coding''])
        \<longrightarrow> 8 \<le> length (select_hashtags_for_topic title hashtags 15))"
proof -
  define sorted_hashtags where
    "sorted_hashtags = sort_reverse snd (score_hashtags (lower title) hashtags [])"
  define rel where "rel = map fst (take 15 sorted_hashtags)"
  have sel: "select_hashtags_for_topic title hashtags 15 = pad_hashtags rel popular_ai_hashtags"
    by (simp add: select_hashtags_for_topic_def Let_def slice_to_def rel_def sorted_hashtags_def)
  have keys: "fst ` set sorted_hashtags = {h \<in> set hashtags. 0 < hashtag_score (lower title) h}"
    by (simp add: sorted_hashtags_def sort_reverse_set score_hashtags_keys)
  have len: "length rel \<le> 15"
    by (simp add: rel_def)
  have "length (pad_hashtags rel popular_ai_hashtags) \<le> max (length rel) 8"
    by (rule pad_hashtags_upper)
  with len have upper: "length (select_hashtags_for_topic title hashtags 15) \<le> 15"
    by (simp add: sel)
  have lower: "8 \<le> length (select_hashtags_for_topic title hashtags 15)"
    if enough: "8 \<le> card ({h \<in> set hashtags. 0 < hashtag_score (lower title) h}
                 \<union> set popular_ai_hashtags)"
  proof (cases "8 \<le> length rel")
    case True
    with pad_hashtags_mono [of rel popular_ai_hashtags] show ?thesis
      by (simp add: sel)
  next
    case False
    then have "length sorted_hashtags < 15"
      by (simp add: rel_def)
    then have "rel = map fst sorted_hashtags"
      by (simp add: rel_def)
    then have "set rel = {h \<in> set hashtags. 0 < hashtag_score (lower title) h}"
      using keys by simp
    with enough have "8 \<le> card (set rel \<union> set popular_ai_hashtags)"
      by simp
    then show ?thesis
      unfolding sel by (rule pad_hashtags_lower)
  qed
  from upper lower show ?thesis
    unfolding popular_ai_hashtags_def by blast
qed

theorem hashtag_selection_bounds_witness:
  "8 \<le> card ({h \<in> set [''#ai'', ''#news'', ''#cooking'']. 0 < hashtag_score (lower ''AI News'') h}
              \<union> set [''#AI'', ''#MachineLearning'', ''#Tech'', ''#Programming'',
                     ''#Tutorial'', ''#Coding''])
   \<and> 8 \<le> length (select_hashtags_for_topic ''AI News'' [''#ai'', ''#news'', ''#cooking''] 15)
   \<and> length (select_hashtags_for_topic ''AI News'' [''#ai'', ''#news'', ''#cooking''] 15) \<le> 15
   \<and> select_hashtags_for_topic ''AI News'' [''#ai'', ''#news'', ''#cooking''] 15
       = [''#ai'', ''#news'', ''#AI'', ''#MachineLearning'', ''#Tech'', ''#Programming'',
          ''#Tutorial'', ''#Coding'']"
proof -
  have enough: "8 \<le> card ({h \<in> set [''#ai'', ''#news'', ''#cooking''].
                              0 < hashtag_score (lower ''AI News'') h}
              \<union> set [''#AI'', ''#MachineLearning'', ''#Tech'', ''#Programming'',
                     ''#Tutorial'', ''#Coding''])"
    by code_simp
  have result: "select_hashtags_for_topic ''AI News'' [''#ai'', ''#news'', ''#cooking''] 15
       = [''#ai'', ''#news'', ''#AI'', ''#MachineLearning'', ''#Tech'', ''#Programming'',
          ''#Tutorial'', ''#Coding'']"
    by code_simp
  from hashtag_selection_bounds [of "''AI News''" "[''#ai'', ''#news'', ''#cooking'']"]
    enough result
  show ?thesis
    by blast
qed

section \<open>Categories outside the six\<close>

lemma dict_get_missing: "k \<notin> set (map fst d) \<Longrightarrow> dict_get d k dflt = dflt"
proof -
  assume "k \<notin> set (map fst d)"
  then have "map_of d k = None"
    by (simp add: map_of_eq_None_iff)
  then show ?thesis
    by (simp add: dict_get_def)
qed

lemma dict_get_nonempty:
  assumes "list_all (\<lambda>p. snd p \<noteq> []) d" and "dflt \<noteq> []"
  shows "dict_get d k dflt \<noteq> []"
proof -
  from dict_get_cases [of d k dflt] show ?thesis
  proof
    assume "dict_get d k dflt = dflt"
    with assms(2) show ?thesis by simp
  next
    assume "dict_get d k dflt \<in> snd ` set d"
    with assms(1) show ?thesis
      by (auto simp: list_all_iff)
  qed
qed

lemma random_choice_singleton: "random_choice [x] g = Inr (x, g \<circ> Suc)"
  by (simp add: random_choice_def)

lemma thumbnail_keys: "map fst thumbnail_concepts = categories"
  by code_simp

lemma thumbnail_lists_nonempty: "list_all (\<lambda>p. snd p \<noteq> []) thumbnail_concepts"
  by code_simp

lemma base_views_keys: "map fst base_views = categories"
  by code_simp

lemma difficulty_keys: "map fst difficulty_map = categories"
  by code_simp

lemma cta_keys: "map fst cta_templates = categories"
  by code_simp

lemma thumbnail_returns:
  "\<exists>concept g'. generate_thumbnail_concept title category g = Inr (concept, g')"
proof -
  have "dict_get thumbnail_concepts category [''Clean, professional design with clear text'']
          \<noteq> []"
    by (rule dict_get_nonempty [OF thumbnail_lists_nonempty]) simp
  then obtain c g' where "random_choice (dict_get thumbnail_concepts category
      [''Clean, professional design with clear text'']) g = Inr (c, g')"
    using random_choice_returns by blast
  then show ?thesis
    by (simp add: generate_thumbnail_concept_def Let_def)
qed

text \<open>
  C7. For every category string the thumbnail generator returns a concept (its list of
  concepts is never empty), and the other per-category generators are total. For a category
  outside the six, the script is the general script, the thumbnail concept is the generic
  concept (with the suffix that the title selects), the estimated views start from the base
  150000, the base difficulty is Medium, and the call to action is the generic one.
\<close>

theorem category_fallbacks:
  "(\<exists>concept g'. generate_thumbnail_concept title category g = Inr (concept, g'))
   \<and> (category \<notin> set [''tutorial'', ''news'', ''comparison'', ''explanation'',
                        ''prediction'', ''review''] \<longrightarrow>
        generate_script_for_idea category title = generate_general_script title
        \<and> generate_thumbnail_concept title category g =
            Inr (''Clean, professional design with clear text'' @
                 (if str_in ''chatgpt'' (lower title) then '' with ChatGPT logo''
                  else if str_in ''ai'' (lower title) then '' with AI/robot elements''
                  else if str_in ''python'' (lower title) then '' with Python logo''
                  else []),
                 g \<circ> Suc)
        \<and> estimate_views trend_score category g =
            (py_int (150000 * (1 + of_int trend_score / 100)
                      * fst (random_uniform (1 / 2) (3 / 2) g)), g \<circ> Suc)
        \<and> base_difficulty category = ''Medium''
        \<and> estimate_difficulty category title \<in> {''Medium'', ''Hard''}
        \<and> generate_call_to_action category =
            ''What are your thoughts? Share them in the comments!'')"
proof (intro conjI impI)
  show "\<exists>concept g'. generate_thumbnail_concept title category g = Inr (concept, g')"
    by (rule thumbnail_returns)
next
  assume other': "category \<notin> set [''tutorial'', ''news'', ''comparison'', ''explanation'',
                        ''prediction'', ''review'']"
  then have other: "category \<notin> set categories"
    unfolding categories_def .
  show "generate_script_for_idea category title = generate_general_script title"
    using other' by (simp add: generate_script_for_idea_def)
  have t: "dict_get thumbnail_concepts category [''Clean, professional design with clear text'']
           = [''Clean, professional design with clear text'']"
    using other by (intro dict_get_missing) (simp add: thumbnail_keys)
  show "generate_thumbnail_concept title category g =
            Inr (''Clean, professional design with clear text'' @
                 (if str_in ''chatgpt'' (lower title) then '' with ChatGPT logo''
                  else if str_in ''ai'' (lower title) then '' with AI/robot elements''
                  else if str_in ''python'' (lower title) then '' with Python logo''
                  else []),
                 g \<circ> Suc)"
    unfolding generate_thumbnail_concept_def t Let_def random_choice_singleton by simp
  have v: "dict_get base_views category 150000 = 150000"
    using other by (intro dict_get_missing) (simp add: base_views_keys)
  show "estimate_views trend_score category g =
            (py_int (150000 * (1 + of_int trend_score / 100)
                      * fst (random_uniform (1 / 2) (3 / 2) g)), g \<circ> Suc)"
    unfolding estimate_views_def v by (simp add: Let_def random_uniform_def)
  show b: "base_difficulty category = ''Medium''"
    unfolding base_difficulty_def using other
    by (intro dict_get_missing) (simp add: difficulty_keys)
  show "estimate_difficulty category title \<in> {''Medium'', ''Hard''}"
    by (simp add: estimate_difficulty_def b Let_def)
  show "generate_call_to_action category =
            ''What are your thoughts? Share them in the comments!''"
    unfolding generate_call_to_action_def using other
    by (intro dict_get_missing) (simp add: cta_keys)
qed

theorem category_fallbacks_witness:
  "''podcast'' \<notin> set [''tutorial'', ''news'', ''comparison'', ''explanation'',
                        ''prediction'', ''review'']
   \<and> generate_script_for_idea ''podcast'' ''AI Podcast'' = generate_general_script ''AI Podcast''
   \<and> generate_thumbnail_concept ''AI Podcast'' ''podcast'' example_rng =
       Inr (''Clean, professional design with clear text with AI/robot elements'',
            example_rng \<circ> Suc)
   \<and> estimate_views 25 ''podcast'' example_rng = (93750, example_rng \<circ> Suc)
   \<and> base_difficulty ''podcast'' = ''Medium''
   \<and> generate_call_to_action ''podcast'' =
       ''What are your thoughts? Share them in the comments!''"
proof -
  have h: "''podcast'' \<notin> set [''tutorial'', ''news'', ''comparison'', ''explanation'',
                        ''prediction'', ''review'']"
    by simp
  note fb = category_fallbacks [where category = "''podcast''" and title = "''AI Podcast''"
      and g = example_rng and trend_score = 25, THEN conjunct2, rule_format, OF h]
  have s: "(if str_in ''chatgpt'' (lower ''AI Podcast'') then '' with ChatGPT logo''
            else if str_in ''ai'' (lower ''AI Podcast'') then '' with AI/robot elements''
            else if str_in ''python'' (lower ''AI Podcast'') then '' with Python logo''
            else []) = '' with AI/robot elements''"
    by (simp add: lower_def lower_char_def)
  have u: "py_int (150000 * (1 + of_int 25 / 100) * fst (random_uniform (1 / 2) (3 / 2) example_rng))
           = 93750"
    by (simp add: random_uniform_def example_rng_def py_int_def)
  from fb h show ?thesis
    unfolding s u by simp
qed

end
